theory Spec2Isabelle
  imports Complex_Main "HOL-Library.Log_Nat"
begin

section \<open>SIANA inspection robot: motor drive, safety manager, command router\<close>

text \<open>
  A shallow embedding of \<^verbatim>\<open>hardware/motors.py\<close>, \<^verbatim>\<open>hardware/leds.py\<close>,
  \<^verbatim>\<open>control/safety.py\<close> and \<^verbatim>\<open>control/navigation.py\<close>.

  Conventions of the model:
  \<^item> every Python object is a record, every method a function that takes the state and
    returns the new one;
  \<^item> speeds, distances to obstacles and times are real numbers: comparison, \<open>abs\<close>,
    \<open>max\<close>, \<open>min\<close> and sign changes are exact on floats, and the sums and products
    on speeds are taken without rounding; the odometry is computed in IEEE binary64
    arithmetic, with every operation rounded;
  \<^item> a background loop is modelled by one pass of its body, and a run of the robot by
    a list of events, each atomic; the ramp thread has a state of its own, since its
    first pass races with the constructor that starts it;
  \<^item> logging is dropped, so the \<open>reason\<close> strings of the safety manager (only logged)
    are not arguments of the model;
  \<^item> the GPIO backend is taken as present, so pin levels are part of the state.
\<close>

subsection \<open>config.py\<close>

definition ENCODER_TICKS_PER_REV :: real where "ENCODER_TICKS_PER_REV = 360"
definition WHEEL_DIAMETER_MM :: real where "WHEEL_DIAMETER_MM = 120"
definition WHEEL_BASE_MM :: real where "WHEEL_BASE_MM = 450"
definition US_MIN_DISTANCE_CM :: real where "US_MIN_DISTANCE_CM = 15"
definition LED_LIGHTING_DEFAULT :: real where "LED_LIGHTING_DEFAULT = 80"
definition SPEED_MIN_PERCENT :: real where "SPEED_MIN_PERCENT = 20"
definition SPEED_MAX_PERCENT :: real where "SPEED_MAX_PERCENT = 100"
definition SPEED_DEFAULT :: real where "SPEED_DEFAULT = 60"
definition TURN_SPEED_FACTOR :: real where "TURN_SPEED_FACTOR = 7 / 10"
definition RAMP_STEP :: real where "RAMP_STEP = 5"

subsection \<open>hardware/motors.py: MotorChannel\<close>

text \<open>
  One DC motor behind an H bridge. \<open>duty\<close> is the duty cycle of its \<open>PWMChannel\<close>;
  \<open>in1\<close>, \<open>in2\<close> are the levels of the two direction pins (True is HIGH).
\<close>

record MotorChannel =
  inverted :: bool
  ch_speed :: real
  duty :: real
  in1 :: bool
  in2 :: bool

definition set_duty :: "real \<Rightarrow> MotorChannel \<Rightarrow> MotorChannel" where
  "set_duty d ch = ch\<lparr>duty := max 0 (min 100 d)\<rparr>"

definition pwm_stop :: "MotorChannel \<Rightarrow> MotorChannel" where
  "pwm_stop ch = set_duty 0 ch"

definition set_direction :: "bool \<Rightarrow> MotorChannel \<Rightarrow> MotorChannel" where
  "set_direction forward ch =
     (if forward \<noteq> inverted ch then ch\<lparr>in1 := True, in2 := False\<rparr>
      else ch\<lparr>in1 := False, in2 := True\<rparr>)"

definition ch_brake :: "MotorChannel \<Rightarrow> MotorChannel" where
  "ch_brake ch = (pwm_stop (ch\<lparr>ch_speed := 0\<rparr>))\<lparr>in1 := True, in2 := True\<rparr>"

definition ch_coast :: "MotorChannel \<Rightarrow> MotorChannel" where
  "ch_coast ch = (pwm_stop (ch\<lparr>ch_speed := 0\<rparr>))\<lparr>in1 := False, in2 := False\<rparr>"

definition ch_set_speed :: "real \<Rightarrow> MotorChannel \<Rightarrow> MotorChannel" where
  "ch_set_speed sp ch =
     (let s = max (-100) (min 100 sp); ch1 = ch\<lparr>ch_speed := s\<rparr>
      in if s = 0 then ch_brake ch1
         else set_duty \<bar>s\<bar> (set_direction (s > 0) ch1))"

subsection \<open>hardware/motors.py: MotorController\<close>

record MotorController =
  left :: MotorChannel
  right :: MotorChannel
  target_left :: real
  target_right :: real
  current_left :: real
  current_right :: real
  ticks_left :: int
  ticks_right :: int
  dist_m :: real
  heading :: real
  emergency :: bool

text \<open>The state built by \<open>__init__\<close>; the right motor is wired inverted.\<close>

definition motors_init :: MotorController where
  "motors_init =
     \<lparr>left = \<lparr>inverted = False, ch_speed = 0, duty = 0, in1 = False, in2 = False\<rparr>,
      right = \<lparr>inverted = True, ch_speed = 0, duty = 0, in1 = False, in2 = False\<rparr>,
      target_left = 0, target_right = 0, current_left = 0, current_right = 0,
      ticks_left = 0, ticks_right = 0, dist_m = 0, heading = 0, emergency = False\<rparr>"

definition tick_left :: "MotorController \<Rightarrow> MotorController" where
  "tick_left m =
     m\<lparr>ticks_left := ticks_left m + (if current_left m \<ge> 0 then 1 else -1)\<rparr>"

definition tick_right :: "MotorController \<Rightarrow> MotorController" where
  "tick_right m =
     m\<lparr>ticks_right := ticks_right m + (if current_right m \<ge> 0 then 1 else -1)\<rparr>"

text \<open>
  The odometry is computed in IEEE binary64 arithmetic. A double is the real number it
  denotes; \<open>rnd\<close> rounds a real to the nearest double, ties to the even significand
  (53 bits). Overflow, subnormal numbers, signed zeros and NaN are not modelled: the
  values of the odometry are far from all of them.
\<close>

text \<open>The binary exponent of \<open>x\<close>: the \<open>e\<close> with \<open>2^e \<le> |x| < 2^(e+1)\<close>.\<close>

definition expo :: "real \<Rightarrow> int" where
  "expo x =
     (if 1 \<le> \<bar>x\<bar> then bitlen \<lfloor>\<bar>x\<bar>\<rfloor> - 1 else - bitlen (\<lceil>1 / \<bar>x\<bar>\<rceil> - 1))"

definition round_even :: "real \<Rightarrow> int" where
  "round_even y =
     (let f = \<lfloor>y\<rfloor>; d = y - of_int f
      in if d < 1 / 2 then f else if 1 / 2 < d then f + 1
         else if even f then f else f + 1)"

definition rnd :: "real \<Rightarrow> real" where
  "rnd x =
     (if x = 0 then 0
      else of_int (round_even (x * 2 powi (52 - expo x))) * 2 powi (expo x - 52))"

definition fadd :: "real \<Rightarrow> real \<Rightarrow> real" where "fadd x y = rnd (x + y)"
definition fsub :: "real \<Rightarrow> real \<Rightarrow> real" where "fsub x y = rnd (x - y)"
definition fmul :: "real \<Rightarrow> real \<Rightarrow> real" where "fmul x y = rnd (x * y)"
definition fdiv :: "real \<Rightarrow> real \<Rightarrow> real" where "fdiv x y = rnd (x / y)"

text \<open>\<open>math.pi\<close>, the double nearest to pi.\<close>

definition math_pi :: real where
  "math_pi = 884279719003555 / 2 ^ 48"

text \<open>\<open>math.degrees\<close>: CPython multiplies by the constant \<open>180.0 / pi\<close>.\<close>

definition degrees :: "real \<Rightarrow> real" where
  "degrees x = fmul x (fdiv 180 math_pi)"

text \<open>C's \<open>fmod\<close>: the remainder with the sign of \<open>x\<close>; it is exact.\<close>

definition fmod :: "real \<Rightarrow> real \<Rightarrow> real" where
  "fmod x y = x - y * of_int (if 0 \<le> x / y then \<lfloor>x / y\<rfloor> else \<lceil>x / y\<rceil>)"

text \<open>
  Python's \<open>x % y\<close> on floats (\<open>float_rem\<close> in CPython, \<open>y\<close> not zero): \<open>fmod\<close>,
  then, when the remainder is not zero and its sign differs from that of \<open>y\<close>, the
  floating-point sum of the remainder and \<open>y\<close>.
\<close>

definition float_rem :: "real \<Rightarrow> real \<Rightarrow> real" where
  "float_rem x y =
     (let m = fmod x y
      in if m \<noteq> 0 then (if (y < 0) \<noteq> (m < 0) then fadd m y else m) else 0)"

text \<open>
  \<open>update_odometry\<close>: drains both tick counters, then integrates. The returned
  dictionary (the two fields, rounded for display) is not part of the model.
\<close>

definition update_odometry :: "MotorController \<Rightarrow> MotorController" where
  "update_odometry m =
     (let tl = ticks_left m; tr = ticks_right m;
          m1 = m\<lparr>ticks_left := 0, ticks_right := 0\<rparr>;
          wheel_circ = fmul math_pi (fdiv WHEEL_DIAMETER_MM 1000);
          dist_l = fmul (fdiv (of_int tl) ENCODER_TICKS_PER_REV) wheel_circ;
          dist_r = fmul (fdiv (of_int tr) ENCODER_TICKS_PER_REV) wheel_circ;
          dist_center = fdiv (fadd dist_l dist_r) 2;
          delta_theta = degrees (fdiv (fsub dist_r dist_l) (fdiv WHEEL_BASE_MM 1000))
      in m1\<lparr>dist_m := fadd (dist_m m1) \<bar>dist_center\<bar>,
            heading := float_rem (fadd (heading m1) delta_theta) 360\<rparr>)"

definition reset_odometry :: "MotorController \<Rightarrow> MotorController" where
  "reset_odometry m = m\<lparr>ticks_left := 0, ticks_right := 0, dist_m := 0, heading := 0\<rparr>"

text \<open>
  The body of \<open>_ramp_loop\<close> for one wheel: the next applied speed, from the current
  speed and the target.
\<close>

definition ramp_next :: "real \<Rightarrow> real \<Rightarrow> real" where
  "ramp_next current target =
     (if \<bar>current - target\<bar> < RAMP_STEP then target
      else if current < target then current + RAMP_STEP
      else current - RAMP_STEP)"

text \<open>The \<open>for side in ('left', 'right')\<close> loop of \<open>_ramp_loop\<close>: left wheel, then right.\<close>

definition ramp_body :: "MotorController \<Rightarrow> MotorController" where
  "ramp_body m =
     (let nl = ramp_next (current_left m) (target_left m);
          m1 = m\<lparr>current_left := nl, left := ch_set_speed nl (left m)\<rparr>;
          nr = ramp_next (current_right m1) (target_right m1)
      in m1\<lparr>current_right := nr, right := ch_set_speed nr (right m1)\<rparr>)"

text \<open>
  \<open>_ramp_loop\<close> runs in a thread of its own, and nothing else calls it. A thread that
  raises an exception nobody catches ends; \<open>_ramp_loop\<close> catches none.
\<close>

datatype ramp_thread = Running | Ended

text \<open>
  One pass of the \<open>while\<close> loop of \<open>_ramp_loop\<close>, by the ramp thread.
  \<open>has_emergency\<close> says whether the attribute \<open>_emergency\<close> exists on the controller
  when the pass reads it (\<open>if not self._emergency\<close>): reading an attribute that does
  not exist raises AttributeError, which ends the thread. With the attribute there,
  the pass runs the body unless the motor latch is set.
\<close>

definition ramp_loop_pass ::
  "bool \<Rightarrow> ramp_thread \<times> MotorController \<Rightarrow> ramp_thread \<times> MotorController" where
  "ramp_loop_pass has_emergency tm =
     (case tm of
        (Ended, m) \<Rightarrow> (Ended, m)
      | (Running, m) \<Rightarrow>
          if \<not> has_emergency then (Ended, m)
          else if \<not> emergency m then (Running, ramp_body m)
          else (Running, m))"

text \<open>
  \<open>MotorController.__init__\<close>, with its thread. The constructor assigns every attribute
  but \<open>_emergency\<close>, creates the ramp thread and starts it, and only then assigns
  \<open>_emergency = False\<close> and attaches the encoders. \<open>Thread.start()\<close> returns once the
  new thread is running, and under CPython's interpreter lock the new thread keeps
  running until it blocks or its time slice is over; the first pass of its loop comes
  after three attribute reads, so it comes before the constructor continues. In
  \<open>motors_init\<close> the field \<open>emergency\<close> stands for an attribute that is not there
  until the last step. The result is the thread's state and the built controller.
\<close>

definition motors_new :: "ramp_thread \<times> MotorController" where
  "motors_new =
     (let started = ramp_loop_pass False (Running, motors_init)
      in (fst started, (snd started)\<lparr>emergency := False\<rparr>))"

definition set_targets :: "real \<Rightarrow> real \<Rightarrow> MotorController \<Rightarrow> MotorController" where
  "set_targets l r m =
     (if emergency m then m
      else m\<lparr>target_left := max (- SPEED_MAX_PERCENT) (min SPEED_MAX_PERCENT l),
             target_right := max (- SPEED_MAX_PERCENT) (min SPEED_MAX_PERCENT r)\<rparr>)"

text \<open>
  The motion API. The optional \<open>speed\<close> argument (\<open>None\<close> selects the default) is an
  \<open>option\<close>.
\<close>

definition forward :: "real option \<Rightarrow> MotorController \<Rightarrow> MotorController" where
  "forward speed m =
     (let s = (case speed of Some v \<Rightarrow> v | None \<Rightarrow> SPEED_DEFAULT) in set_targets s s m)"

definition backward :: "real option \<Rightarrow> MotorController \<Rightarrow> MotorController" where
  "backward speed m =
     (let s = (case speed of Some v \<Rightarrow> v | None \<Rightarrow> SPEED_DEFAULT)
      in set_targets (- s) (- s) m)"

definition turn_left :: "real option \<Rightarrow> MotorController \<Rightarrow> MotorController" where
  "turn_left speed m =
     (let s = (case speed of Some v \<Rightarrow> v | None \<Rightarrow> SPEED_DEFAULT)
      in set_targets (s * TURN_SPEED_FACTOR) s m)"

definition turn_right :: "real option \<Rightarrow> MotorController \<Rightarrow> MotorController" where
  "turn_right speed m =
     (let s = (case speed of Some v \<Rightarrow> v | None \<Rightarrow> SPEED_DEFAULT)
      in set_targets s (s * TURN_SPEED_FACTOR) m)"

definition pivot_left :: "real option \<Rightarrow> MotorController \<Rightarrow> MotorController" where
  "pivot_left speed m =
     (let s = (case speed of Some v \<Rightarrow> v | None \<Rightarrow> SPEED_DEFAULT * (1 / 2))
      in set_targets (- s) s m)"

definition pivot_right :: "real option \<Rightarrow> MotorController \<Rightarrow> MotorController" where
  "pivot_right speed m =
     (let s = (case speed of Some v \<Rightarrow> v | None \<Rightarrow> SPEED_DEFAULT * (1 / 2))
      in set_targets s (- s) m)"

definition set_speed_pct :: "real \<Rightarrow> MotorController \<Rightarrow> MotorController" where
  "set_speed_pct speed_pct m =
     (let l_sign = (if target_left m \<ge> 0 then 1 else -1);
          r_sign = (if target_right m \<ge> 0 then 1 else -1);
          s = max SPEED_MIN_PERCENT \<bar>speed_pct\<bar>
      in set_targets (l_sign * s) (r_sign * s) m)"

definition stop :: "MotorController \<Rightarrow> MotorController" where
  "stop m = set_targets 0 0 m"

definition brake :: "MotorController \<Rightarrow> MotorController" where
  "brake m =
     m\<lparr>target_left := 0, target_right := 0, current_left := 0, current_right := 0,
       left := ch_brake (left m), right := ch_brake (right m)\<rparr>"

definition emergency_stop :: "MotorController \<Rightarrow> MotorController" where
  "emergency_stop m =
     m\<lparr>emergency := True,
       target_left := 0, target_right := 0, current_left := 0, current_right := 0,
       left := ch_coast (left m), right := ch_coast (right m)\<rparr>"

definition motors_release_emergency :: "MotorController \<Rightarrow> MotorController" where
  "motors_release_emergency m = m\<lparr>emergency := False\<rparr>"

subsection \<open>hardware/leds.py: LedController\<close>

text \<open>
  \<open>LED_PATTERNS\<close>: state name to (green, orange, red, blink frequency in Hz, 0 for a
  steady light). The pins follow from \<open>current_state\<close> through this table.
  \<open>flashes\<close> records the flash requests issued (colour, number of pulses): the source
  starts a thread that pulses the pin and keeps no other trace of them.
\<close>

record LedController =
  current_state :: string
  lighting_duty :: real
  flashes :: "(string \<times> nat) list"

definition LED_PATTERNS :: "(string \<times> (bool \<times> bool \<times> bool \<times> real)) list" where
  "LED_PATTERNS =
     [(''idle'', (False, False, False, 0)),
      (''ready'', (True, False, False, 0)),
      (''moving'', (True, False, False, 2)),
      (''warning'', (False, True, False, 1)),
      (''battery_low'', (False, True, False, 3)),
      (''emergency'', (False, False, True, 5)),
      (''fault'', (False, False, True, 1)),
      (''paused'', (True, True, False, 1 / 2))]"

definition set_state :: "string \<Rightarrow> LedController \<Rightarrow> LedController" where
  "set_state state_name l =
     (if map_of LED_PATTERNS state_name = None then l
      else l\<lparr>current_state := state_name\<rparr>)"

definition flash :: "string \<Rightarrow> nat \<Rightarrow> LedController \<Rightarrow> LedController" where
  "flash color n_times l =
     (if color \<in> set [''green'', ''orange'', ''red'']
      then l\<lparr>flashes := flashes l @ [(color, n_times)]\<rparr>
      else l)"

definition set_lighting :: "real \<Rightarrow> LedController \<Rightarrow> LedController" where
  "set_lighting duty_pct l = l\<lparr>lighting_duty := max 0 (min 100 duty_pct)\<rparr>"

definition lighting_on :: "LedController \<Rightarrow> LedController" where
  "lighting_on l = set_lighting LED_LIGHTING_DEFAULT l"

definition lighting_off :: "LedController \<Rightarrow> LedController" where
  "lighting_off l = set_lighting 0 l"

subsection \<open>The robot: shared objects of navigation.py and safety.py\<close>

datatype RobotState =
  IDLE | MOVING_FORWARD | MOVING_BACKWARD | TURNING_LEFT | TURNING_RIGHT
  | PIVOT_LEFT | PIVOT_RIGHT | PAUSED | EMERGENCY_STOP | FAULT

text \<open>The overlay texts the navigation layer hands to the camera.\<close>

datatype overlay = INSPECTION | INSPECTION_EN_COURS | INSPECTION_TERMINEE

record CameraStream =
  overlay_pos_m :: real
  overlay_status :: overlay

record NavigationController =
  state :: RobotState
  speed_pct :: real
  inspecting :: bool
  start_time :: "real option"

text \<open>
  \<open>nav_linked\<close> says whether the safety manager's \<open>_nav\<close> reference is set
  (\<open>set_navigation\<close> has been called); the source tests it with \<open>if self._nav\<close>.
\<close>

record SafetyManager =
  estop_active :: bool
  last_command_t :: real
  nav_linked :: bool

text \<open>
  The objects \<open>build_robot\<close> wires together. \<open>motors\<close> and \<open>leds\<close> are shared by
  the navigation controller and the safety manager; \<open>readings\<close> is the obstacle
  manager's dictionary sensor name to last distance (cm).
\<close>

record robot =
  motors :: MotorController
  leds :: LedController
  camera :: CameraStream
  readings :: "(string \<times> real) list"
  nav :: NavigationController
  safety :: SafetyManager

text \<open>The state \<open>build_robot\<close> returns, the safety manager created at time \<open>t0\<close>.\<close>

definition build_robot :: "real \<Rightarrow> robot" where
  "build_robot t0 =
     \<lparr>motors = motors_init,
      leds = \<lparr>current_state = ''ready'', lighting_duty = LED_LIGHTING_DEFAULT, flashes = []\<rparr>,
      camera = \<lparr>overlay_pos_m = 0, overlay_status = INSPECTION\<rparr>,
      readings = [(''front'', 999), (''rear'', 999), (''left'', 999)],
      nav = \<lparr>state = IDLE, speed_pct = 60, inspecting = False, start_time = None\<rparr>,
      safety = \<lparr>estop_active = False, last_command_t = t0, nav_linked = True\<rparr>\<rparr>"

subsection \<open>control/safety.py: SafetyManager\<close>

definition WATCHDOG_TIMEOUT_S :: real where "WATCHDOG_TIMEOUT_S = 15"
definition FOSSE_LENGTH_M :: real where "FOSSE_LENGTH_M = 200"

definition trigger_emergency :: "robot \<Rightarrow> robot" where
  "trigger_emergency s =
     (if estop_active (safety s) then s
      else
        (let s1 = s\<lparr>safety := (safety s)\<lparr>estop_active := True\<rparr>\<rparr>;
             s2 = s1\<lparr>motors := emergency_stop (motors s1)\<rparr>;
             s3 = s2\<lparr>leds := set_state ''emergency'' (leds s2)\<rparr>
         in if nav_linked (safety s3)
            then s3\<lparr>nav := (nav s3)\<lparr>state := EMERGENCY_STOP\<rparr>\<rparr>
            else s3))"

text \<open>\<open>now\<close> is the value of \<open>time.time()\<close> at the call.\<close>

definition release_emergency :: "real \<Rightarrow> robot \<Rightarrow> robot" where
  "release_emergency now s =
     (if \<not> estop_active (safety s) then s
      else
        (let s1 = s\<lparr>safety := (safety s)\<lparr>estop_active := False\<rparr>\<rparr>;
             s2 = s1\<lparr>motors := motors_release_emergency (motors s1)\<rparr>;
             s3 = s2\<lparr>leds := set_state ''ready'' (leds s2)\<rparr>;
             s4 = (if nav_linked (safety s3)
                   then s3\<lparr>nav := (nav s3)\<lparr>state := IDLE\<rparr>\<rparr>
                   else s3)
         in s4\<lparr>safety := (safety s4)\<lparr>last_command_t := now\<rparr>\<rparr>))"

definition is_emergency :: "robot \<Rightarrow> bool" where
  "is_emergency s = estop_active (safety s)"

definition on_estop_gpio :: "robot \<Rightarrow> robot" where
  "on_estop_gpio s = trigger_emergency s"

definition on_obstacle_critical :: "string \<Rightarrow> real \<Rightarrow> robot \<Rightarrow> robot" where
  "on_obstacle_critical sensor_name dist_cm s =
     (if nav_linked (safety s) then
        (let st = state (nav s);
             moving_forward = (st = MOVING_FORWARD \<and> sensor_name = ''front'');
             moving_backward = (st = MOVING_BACKWARD \<and> sensor_name = ''rear'')
         in if moving_forward \<or> moving_backward then trigger_emergency s else s)
      else s\<lparr>motors := brake (motors s)\<rparr>)"

definition on_obstacle_warning :: "string \<Rightarrow> real \<Rightarrow> robot \<Rightarrow> robot" where
  "on_obstacle_warning sensor_name dist_cm s =
     (let s1 = s\<lparr>leds := set_state ''warning'' (leds s)\<rparr>
      in if nav_linked (safety s1)
            \<and> state (nav s1) \<in> set [MOVING_FORWARD, MOVING_BACKWARD]
         then (let new_speed = max 20 (speed_pct (nav s1) * (1 / 2))
               in s1\<lparr>motors := set_speed_pct new_speed (motors s1)\<rparr>)
         else s1)"

definition on_low_battery :: "real \<Rightarrow> robot \<Rightarrow> robot" where
  "on_low_battery soc_pct s =
     (let s1 = s\<lparr>leds := set_state ''battery_low'' (leds s)\<rparr>
      in if soc_pct < 5 then trigger_emergency s1 else s1)"

text \<open>
  One iteration of \<open>_watchdog_loop\<close>, after its sleep; \<open>now\<close> is \<open>time.time()\<close>.
\<close>

definition watchdog_check :: "real \<Rightarrow> robot \<Rightarrow> robot" where
  "watchdog_check now s =
     (if \<not> estop_active (safety s) then
        (let elapsed = now - last_command_t (safety s)
         in if elapsed > WATCHDOG_TIMEOUT_S then
              (let s1 = s\<lparr>motors := stop (motors s)\<rparr>;
                   s2 = (if nav_linked (safety s1)
                         then s1\<lparr>nav := (nav s1)\<lparr>state := IDLE\<rparr>\<rparr>
                         else s1)
               in s2\<lparr>leds := set_state ''warning'' (leds s2)\<rparr>)
            else s)
      else s)"

definition heartbeat :: "real \<Rightarrow> robot \<Rightarrow> robot" where
  "heartbeat now s = s\<lparr>safety := (safety s)\<lparr>last_command_t := now\<rparr>\<rparr>"

definition check_fosse_limits :: "real \<Rightarrow> robot \<Rightarrow> robot" where
  "check_fosse_limits distance_m s =
     (let s1 = (if distance_m \<ge> FOSSE_LENGTH_M - 2
                then (let s0 = s\<lparr>motors := stop (motors s)\<rparr>
                      in s0\<lparr>leds := flash ''orange'' 5 (leds s0)\<rparr>)
                else s)
      in if distance_m \<ge> FOSSE_LENGTH_M then trigger_emergency s1 else s1)"

text \<open>\<open>is_path_clear\<close> delegates to the obstacle manager.\<close>

definition is_path_clear :: "string \<Rightarrow> robot \<Rightarrow> bool" where
  "is_path_clear direction s =
     ((case map_of (readings s) direction of None \<Rightarrow> 999 | Some d \<Rightarrow> d)
        > US_MIN_DISTANCE_CM)"

subsection \<open>control/navigation.py: NavigationController\<close>

text \<open>
  A command is the dictionary \<open>{"action": str, "value": optional number}\<close>; either key
  may be missing. Action strings are taken over the code points below 256.
\<close>

record command =
  action :: "string option"
  val :: "real option"

text \<open>
  What a handler reads from outside the robot: the clock (\<open>time.time()\<close>) and whether
  the camera could write the snapshot file (\<open>save_snapshot\<close>).
\<close>

record env =
  time_now :: real
  snapshot_ok :: bool

text \<open>
  The result messages, one constructor per message text of the source, with the values
  the text is formatted from:
  \<^item> \<open>Commande_inconnue a\<close>: "Commande inconnue : 'a'";
  \<^item> \<open>ARRET_URGENCE_actif\<close>: "ARRET D'URGENCE actif - seule la commande estop_release
    est acceptee";
  \<^item> \<open>Commande_non_implementee a\<close>: "Commande non implementee : a";
  \<^item> \<open>Obstacle_avant\<close>, \<open>Obstacle_arriere\<close>: "Obstacle detecte a l'avant / a l'arriere -
    deplacement bloque";
  \<^item> \<open>Vitesse v\<close>: "Vitesse : v%"; \<open>Vitesse_reglee v\<close>: "Vitesse reglee : v%";
  \<^item> \<open>Inspection_terminee d\<close>: "Inspection terminee - d m";
  \<^item> \<open>ARRET_URGENCE_active\<close>: "ARRET D'URGENCE active" (the answer to \<open>estop\<close>);
  \<^item> \<open>Eclairage_ON v\<close>: "Eclairage ON (v%)"; \<open>Eclairage v\<close>: "Eclairage : v%";
  \<^item> the others are the text they spell.
\<close>

datatype message =
  Commande_inconnue string
  | ARRET_URGENCE_actif
  | Commande_non_implementee string
  | Obstacle_avant
  | Obstacle_arriere
  | Avance
  | Recule
  | Virage_gauche
  | Virage_droite
  | Pivotement_gauche
  | Pivotement_droite
  | Arret_progressif
  | Frein_immediat
  | Vitesse real
  | Vitesse_reglee real
  | Inspection_demarree
  | Inspection_terminee real
  | Inspection_pausee
  | Inspection_reprise
  | ARRET_URGENCE_active
  | Arret_urgence_relache
  | Eclairage_ON real
  | Eclairage_OFF
  | Eclairage real
  | Snapshot_sauvegarde
  | Snapshot_echoue
  | Pong
  | Odometrie_reinitialisee

text \<open>
  The extra fields of a result: the snapshot's file path (built from the clock and the
  distance travelled) or the timestamp of a \<open>ping\<close>.
\<close>

datatype extra = NoExtra | Filepath real real | Timestamp real

record response =
  r_ok :: bool
  r_msg :: message
  r_state :: RobotState
  r_speed :: real
  r_extra :: extra

definition VALID_COMMANDS :: "string list" where
  "VALID_COMMANDS =
     [''forward'', ''backward'', ''turn_left'', ''turn_right'', ''pivot_left'',
      ''pivot_right'', ''stop'', ''brake'',
      ''speed_up'', ''speed_down'', ''set_speed'',
      ''inspect_start'', ''inspect_stop'', ''inspect_pause'', ''inspect_resume'',
      ''estop'', ''estop_release'',
      ''light_on'', ''light_off'', ''light_set'', ''snapshot'',
      ''ping'', ''reset_odometry'']"

definition SPEED_STEP :: real where "SPEED_STEP = 10"

text \<open>\<open>str.lower\<close> and \<open>str.strip\<close> on the code points below 256.\<close>

definition lower_char :: "char \<Rightarrow> char" where
  "lower_char c =
     (let n = (of_char c :: nat)
      in if (65 \<le> n \<and> n \<le> 90) \<or> (192 \<le> n \<and> n \<le> 222 \<and> n \<noteq> 215)
         then char_of (n + 32) else c)"

definition lower :: "string \<Rightarrow> string" where
  "lower xs = map lower_char xs"

definition isspace :: "char \<Rightarrow> bool" where
  "isspace c =
     (let n = (of_char c :: nat)
      in (9 \<le> n \<and> n \<le> 13) \<or> (28 \<le> n \<and> n \<le> 32) \<or> n = 133 \<or> n = 160)"

definition strip :: "string \<Rightarrow> string" where
  "strip xs = rev (dropWhile isspace (rev (dropWhile isspace xs)))"

definition resp :: "bool \<Rightarrow> message \<Rightarrow> extra \<Rightarrow> robot \<Rightarrow> response" where
  "resp ok msg ex s =
     \<lparr>r_ok = ok, r_msg = msg, r_state = state (nav s), r_speed = speed_pct (nav s),
      r_extra = ex\<rparr>"

definition nav_set_state :: "RobotState \<Rightarrow> robot \<Rightarrow> robot" where
  "nav_set_state st s = s\<lparr>nav := (nav s)\<lparr>state := st\<rparr>\<rparr>"

definition nav_set_speed :: "real \<Rightarrow> robot \<Rightarrow> robot" where
  "nav_set_speed v s = s\<lparr>nav := (nav s)\<lparr>speed_pct := v\<rparr>\<rparr>"

definition on_motors :: "(MotorController \<Rightarrow> MotorController) \<Rightarrow> robot \<Rightarrow> robot" where
  "on_motors f s = s\<lparr>motors := f (motors s)\<rparr>"

definition on_leds :: "(LedController \<Rightarrow> LedController) \<Rightarrow> robot \<Rightarrow> robot" where
  "on_leds f s = s\<lparr>leds := f (leds s)\<rparr>"

definition update_overlay :: "real \<Rightarrow> overlay \<Rightarrow> robot \<Rightarrow> robot" where
  "update_overlay pos_m status s =
     s\<lparr>camera := (camera s)\<lparr>overlay_pos_m := pos_m, overlay_status := status\<rparr>\<rparr>"

type_synonym handler = "env \<Rightarrow> command \<Rightarrow> robot \<Rightarrow> response \<times> robot"

definition cmd_forward :: handler where
  "cmd_forward e cmd s =
     (if \<not> is_path_clear ''front'' s then (resp False Obstacle_avant NoExtra s, s)
      else
        (let s1 = on_motors (forward (Some (speed_pct (nav s)))) s;
             s2 = nav_set_state MOVING_FORWARD s1;
             s3 = on_leds (set_state ''moving'') s2
         in (resp True Avance NoExtra s3, s3)))"

definition cmd_backward :: handler where
  "cmd_backward e cmd s =
     (if \<not> is_path_clear ''rear'' s then (resp False Obstacle_arriere NoExtra s, s)
      else
        (let s1 = on_motors (backward (Some (speed_pct (nav s)))) s;
             s2 = nav_set_state MOVING_BACKWARD s1;
             s3 = on_leds (set_state ''moving'') s2
         in (resp True Recule NoExtra s3, s3)))"

definition cmd_turn_left :: handler where
  "cmd_turn_left e cmd s =
     (let s1 = on_motors (turn_left (Some (speed_pct (nav s)))) s;
          s2 = nav_set_state TURNING_LEFT s1;
          s3 = on_leds (set_state ''moving'') s2
      in (resp True Virage_gauche NoExtra s3, s3))"

definition cmd_turn_right :: handler where
  "cmd_turn_right e cmd s =
     (let s1 = on_motors (turn_right (Some (speed_pct (nav s)))) s;
          s2 = nav_set_state TURNING_RIGHT s1;
          s3 = on_leds (set_state ''moving'') s2
      in (resp True Virage_droite NoExtra s3, s3))"

definition cmd_pivot_left :: handler where
  "cmd_pivot_left e cmd s =
     (let s1 = on_motors (pivot_left (Some (speed_pct (nav s) * (6 / 10)))) s;
          s2 = nav_set_state PIVOT_LEFT s1;
          s3 = on_leds (set_state ''moving'') s2
      in (resp True Pivotement_gauche NoExtra s3, s3))"

definition cmd_pivot_right :: handler where
  "cmd_pivot_right e cmd s =
     (let s1 = on_motors (pivot_right (Some (speed_pct (nav s) * (6 / 10)))) s;
          s2 = nav_set_state PIVOT_RIGHT s1;
          s3 = on_leds (set_state ''moving'') s2
      in (resp True Pivotement_droite NoExtra s3, s3))"

definition cmd_stop :: handler where
  "cmd_stop e cmd s =
     (let s1 = on_motors stop s;
          s2 = nav_set_state IDLE s1;
          s3 = on_leds (set_state ''ready'') s2
      in (resp True Arret_progressif NoExtra s3, s3))"

definition cmd_brake :: handler where
  "cmd_brake e cmd s =
     (let s1 = on_motors brake s;
          s2 = nav_set_state IDLE s1;
          s3 = on_leds (set_state ''ready'') s2
      in (resp True Frein_immediat NoExtra s3, s3))"

definition cmd_speed_up :: handler where
  "cmd_speed_up e cmd s =
     (let s1 = nav_set_speed (min 100 (speed_pct (nav s) + SPEED_STEP)) s;
          s2 = on_motors (set_speed_pct (speed_pct (nav s1))) s1
      in (resp True (Vitesse (speed_pct (nav s2))) NoExtra s2, s2))"

definition cmd_speed_down :: handler where
  "cmd_speed_down e cmd s =
     (let s1 = nav_set_speed (max 20 (speed_pct (nav s) - SPEED_STEP)) s;
          s2 = on_motors (set_speed_pct (speed_pct (nav s1))) s1
      in (resp True (Vitesse (speed_pct (nav s2))) NoExtra s2, s2))"

definition cmd_set_speed :: handler where
  "cmd_set_speed e cmd s =
     (let v = (case val cmd of Some x \<Rightarrow> x | None \<Rightarrow> speed_pct (nav s));
          s1 = nav_set_speed (max 20 (min 100 v)) s;
          s2 = on_motors (set_speed_pct (speed_pct (nav s1))) s1
      in (resp True (Vitesse_reglee (speed_pct (nav s2))) NoExtra s2, s2))"

definition cmd_inspect_start :: handler where
  "cmd_inspect_start e cmd s =
     (let s1 = s\<lparr>nav := (nav s)\<lparr>inspecting := True, start_time := Some (time_now e)\<rparr>\<rparr>;
          s2 = on_motors reset_odometry s1;
          s3 = on_leds lighting_on s2;
          s4 = update_overlay 0 INSPECTION_EN_COURS s3;
          s5 = on_leds (set_state ''ready'') s4
      in (resp True Inspection_demarree NoExtra s5, s5))"

definition cmd_inspect_stop :: handler where
  "cmd_inspect_stop e cmd s =
     (let s1 = s\<lparr>nav := (nav s)\<lparr>inspecting := False\<rparr>\<rparr>;
          s2 = on_motors stop s1;
          s3 = on_leds lighting_off s2;
          s4 = update_overlay (dist_m (motors s3)) INSPECTION_TERMINEE s3;
          s5 = on_leds (set_state ''ready'') s4
      in (resp True (Inspection_terminee (dist_m (motors s5))) NoExtra s5, s5))"

definition cmd_inspect_pause :: handler where
  "cmd_inspect_pause e cmd s =
     (let s1 = on_motors stop s;
          s2 = nav_set_state PAUSED s1;
          s3 = on_leds (set_state ''paused'') s2
      in (resp True Inspection_pausee NoExtra s3, s3))"

definition cmd_inspect_resume :: handler where
  "cmd_inspect_resume e cmd s =
     (let s1 = nav_set_state IDLE s;
          s2 = on_leds (set_state ''ready'') s1
      in (resp True Inspection_reprise NoExtra s2, s2))"

definition cmd_estop :: handler where
  "cmd_estop e cmd s =
     (let s1 = on_motors emergency_stop s;
          s2 = nav_set_state EMERGENCY_STOP s1;
          s3 = on_leds (set_state ''emergency'') s2
      in (resp True ARRET_URGENCE_active NoExtra s3, s3))"

definition cmd_estop_release :: handler where
  "cmd_estop_release e cmd s =
     (let s1 = on_motors motors_release_emergency s;
          s2 = nav_set_state IDLE s1;
          s3 = on_leds (set_state ''ready'') s2
      in (resp True Arret_urgence_relache NoExtra s3, s3))"

definition cmd_light_on :: handler where
  "cmd_light_on e cmd s =
     (let s1 = on_leds lighting_on s
      in (resp True (Eclairage_ON (lighting_duty (leds s1))) NoExtra s1, s1))"

definition cmd_light_off :: handler where
  "cmd_light_off e cmd s =
     (let s1 = on_leds lighting_off s in (resp True Eclairage_OFF NoExtra s1, s1))"

definition cmd_light_set :: handler where
  "cmd_light_set e cmd s =
     (let v = (case val cmd of Some x \<Rightarrow> x | None \<Rightarrow> 80);
          s1 = on_leds (set_lighting v) s
      in (resp True (Eclairage v) NoExtra s1, s1))"

definition cmd_snapshot :: handler where
  "cmd_snapshot e cmd s =
     (if snapshot_ok e
      then (resp True Snapshot_sauvegarde (Filepath (time_now e) (dist_m (motors s))) s, s)
      else (resp False Snapshot_echoue NoExtra s, s))"

definition cmd_ping :: handler where
  "cmd_ping e cmd s = (resp True Pong (Timestamp (time_now e)) s, s)"

definition cmd_reset_odometry :: handler where
  "cmd_reset_odometry e cmd s =
     (let s1 = on_motors reset_odometry s
      in (resp True Odometrie_reinitialisee NoExtra s1, s1))"

text \<open>
  \<open>getattr(self, "_cmd_" + action, None)\<close>: the methods of the class whose name starts
  with \<open>_cmd_\<close>.
\<close>

definition handlers :: "(string \<times> handler) list" where
  "handlers =
     [(''forward'', cmd_forward), (''backward'', cmd_backward),
      (''turn_left'', cmd_turn_left), (''turn_right'', cmd_turn_right),
      (''pivot_left'', cmd_pivot_left), (''pivot_right'', cmd_pivot_right),
      (''stop'', cmd_stop), (''brake'', cmd_brake),
      (''speed_up'', cmd_speed_up), (''speed_down'', cmd_speed_down),
      (''set_speed'', cmd_set_speed),
      (''inspect_start'', cmd_inspect_start), (''inspect_stop'', cmd_inspect_stop),
      (''inspect_pause'', cmd_inspect_pause), (''inspect_resume'', cmd_inspect_resume),
      (''estop'', cmd_estop), (''estop_release'', cmd_estop_release),
      (''light_on'', cmd_light_on), (''light_off'', cmd_light_off),
      (''light_set'', cmd_light_set), (''snapshot'', cmd_snapshot),
      (''ping'', cmd_ping), (''reset_odometry'', cmd_reset_odometry)]"

text \<open>The first line of \<open>handle_command\<close>: \<open>cmd.get("action", "").lower().strip()\<close>.\<close>

definition action_of :: "command \<Rightarrow> string" where
  "action_of cmd = strip (lower (case action cmd of Some a \<Rightarrow> a | None \<Rightarrow> []))"

text \<open>
  \<open>handle_command\<close>: the normalised action is checked against \<open>VALID_COMMANDS\<close>,
  then against the emergency state, then dispatched.
\<close>

definition handle_command :: "env \<Rightarrow> command \<Rightarrow> robot \<Rightarrow> response \<times> robot" where
  "handle_command e cmd s =
     (let act = action_of cmd
      in if act \<notin> set VALID_COMMANDS
         then (resp False (Commande_inconnue act) NoExtra s, s)
         else if state (nav s) = EMERGENCY_STOP \<and> act \<notin> set [''estop_release'', ''ping'']
         then (resp False ARRET_URGENCE_actif NoExtra s, s)
         else (case map_of handlers act of
                 Some h \<Rightarrow> h e cmd s
               | None \<Rightarrow> (resp False (Commande_non_implementee act) NoExtra s, s)))"

subsection \<open>The running machine\<close>

text \<open>
  The robot together with its ramp thread, and everything that acts on it once it is
  built: operator commands and heartbeats (\<open>server/api.py\<close>), the emergency button, the
  obstacle manager's readings and callbacks, the battery callback, the watchdog, the
  track-limit check, the ramp thread, the odometry task and the encoder interrupts.
  Each acts atomically, in some order: a run of the machine is a list of events.
  Process shutdown ends the run.
\<close>

type_synonym machine = "ramp_thread \<times> robot"

datatype event =
  Command env command
  | Heartbeat real
  | EstopButton
  | Reading string real
  | ObstacleCritical string real
  | ObstacleWarning string real
  | LowBattery real
  | WatchdogCheck real
  | FosseCheck real
  | RampPass
  | OdometryUpdate
  | EncoderLeft
  | EncoderRight

text \<open>\<open>self._readings[name] = d\<close> in the scan loop of the obstacle manager.\<close>

definition set_reading :: "string \<Rightarrow> real \<Rightarrow> (string \<times> real) list \<Rightarrow> (string \<times> real) list" where
  "set_reading name d rs =
     (if name \<in> set (map fst rs) then map (\<lambda>kv. if fst kv = name then (name, d) else kv) rs
      else rs @ [(name, d)])"

text \<open>
  One pass of the ramp thread on the machine. After construction the attribute
  \<open>_emergency\<close> exists.
\<close>

definition ramp_pass :: "machine \<Rightarrow> machine" where
  "ramp_pass mc =
     (let tm = ramp_loop_pass True (fst mc, motors (snd mc))
      in (fst tm, (snd mc)\<lparr>motors := snd tm\<rparr>))"

fun step :: "event \<Rightarrow> machine \<Rightarrow> machine" where
  "step (Command e cmd) mc = (fst mc, snd (handle_command e cmd (snd mc)))"
| "step (Heartbeat t) mc = (fst mc, heartbeat t (snd mc))"
| "step EstopButton mc = (fst mc, on_estop_gpio (snd mc))"
| "step (Reading name d) mc =
     (fst mc, (snd mc)\<lparr>readings := set_reading name d (readings (snd mc))\<rparr>)"
| "step (ObstacleCritical name d) mc = (fst mc, on_obstacle_critical name d (snd mc))"
| "step (ObstacleWarning name d) mc = (fst mc, on_obstacle_warning name d (snd mc))"
| "step (LowBattery soc) mc = (fst mc, on_low_battery soc (snd mc))"
| "step (WatchdogCheck t) mc = (fst mc, watchdog_check t (snd mc))"
| "step (FosseCheck d) mc = (fst mc, check_fosse_limits d (snd mc))"
| "step RampPass mc = ramp_pass mc"
| "step OdometryUpdate mc = (fst mc, (snd mc)\<lparr>motors := update_odometry (motors (snd mc))\<rparr>)"
| "step EncoderLeft mc = (fst mc, (snd mc)\<lparr>motors := tick_left (motors (snd mc))\<rparr>)"
| "step EncoderRight mc = (fst mc, (snd mc)\<lparr>motors := tick_right (motors (snd mc))\<rparr>)"

fun run :: "event list \<Rightarrow> machine \<Rightarrow> machine" where
  "run [] mc = mc"
| "run (ev # evs) mc = run evs (step ev mc)"

text \<open>The machine \<open>build_robot\<close> leaves behind, the safety manager created at \<open>t0\<close>.\<close>

definition build_machine :: "real \<Rightarrow> machine" where
  "build_machine t0 = (fst motors_new, build_robot t0)"

text \<open>
  What holds of the motor drive in every run: each channel carries the applied speed
  of its wheel, clamped, with the duty cycle its magnitude; with the motor latch set
  the targets and the applied speeds are zero; with the ramp thread ended the applied
  speeds are zero.
\<close>

definition drive_ok :: "ramp_thread \<Rightarrow> MotorController \<Rightarrow> bool" where
  "drive_ok th m =
     (ch_speed (left m) = max (- 100) (min 100 (current_left m))
      \<and> duty (left m) = \<bar>ch_speed (left m)\<bar>
      \<and> ch_speed (right m) = max (- 100) (min 100 (current_right m))
      \<and> duty (right m) = \<bar>ch_speed (right m)\<bar>
      \<and> (emergency m \<longrightarrow> target_left m = 0 \<and> target_right m = 0
                         \<and> current_left m = 0 \<and> current_right m = 0)
      \<and> (th = Ended \<longrightarrow> current_left m = 0 \<and> current_right m = 0))"

subsection \<open>Concrete robots\<close>

text \<open>
  States reached from \<open>build_robot 0\<close> by operator commands, used to run the model on
  concrete inputs.
\<close>

definition env0 :: env where
  "env0 = \<lparr>time_now = 100, snapshot_ok = True\<rparr>"

definition cmd_of :: "string \<Rightarrow> command" where
  "cmd_of a = \<lparr>action = Some a, val = None\<rparr>"

definition advancing :: robot where
  "advancing = snd (handle_command env0 (cmd_of ''forward'') (build_robot 0))"

definition turning :: robot where
  "turning = snd (handle_command env0 (cmd_of ''turn_left'') (build_robot 0))"

definition estopped :: robot where
  "estopped = snd (handle_command env0 (cmd_of ''estop'') (build_robot 0))"

definition released :: robot where
  "released =
     snd (handle_command env0 (cmd_of ''estop_release'') (trigger_emergency (build_robot 0)))"

definition moving_again :: robot where
  "moving_again = snd (handle_command env0 (cmd_of ''forward'') released)"

text \<open>
  A robot whose ramp thread runs, twelve ramp periods after \<open>forward\<close>; and the same
  events on the machine as built.
\<close>

definition forward_then_ramp :: "event list" where
  "forward_then_ramp = Command env0 (cmd_of ''forward'') # replicate 12 RampPass"

definition cruising :: machine where
  "cruising = run forward_then_ramp (Running, build_robot 0)"

definition as_built :: machine where
  "as_built = run forward_then_ramp (build_machine 0)"

text \<open>
  Odometry: nine pulses of the left encoder and ten of the right, an update, one more
  pulse of the left encoder, an update.
\<close>

definition odo_a :: MotorController where
  "odo_a = update_odometry ((tick_left ^^ 9) ((tick_right ^^ 10) motors_init))"

definition odo_b :: MotorController where
  "odo_b = update_odometry (tick_left odo_a)"

section \<open>Evaluation rules\<close>

lemmas motor_defs =
  set_duty_def pwm_stop_def set_direction_def ch_brake_def ch_coast_def ch_set_speed_def
  motors_init_def set_targets_def forward_def backward_def turn_left_def turn_right_def
  pivot_left_def pivot_right_def set_speed_pct_def stop_def brake_def emergency_stop_def
  motors_release_emergency_def reset_odometry_def
  SPEED_MIN_PERCENT_def SPEED_MAX_PERCENT_def SPEED_DEFAULT_def TURN_SPEED_FACTOR_def
  RAMP_STEP_def

lemmas led_defs =
  LED_PATTERNS_def set_state_def flash_def set_lighting_def lighting_on_def lighting_off_def
  LED_LIGHTING_DEFAULT_def

lemmas safety_defs =
  build_robot_def trigger_emergency_def release_emergency_def is_emergency_def
  on_obstacle_critical_def watchdog_check_def check_fosse_limits_def is_path_clear_def
  WATCHDOG_TIMEOUT_S_def FOSSE_LENGTH_M_def US_MIN_DISTANCE_CM_def

lemmas handler_defs =
  cmd_forward_def cmd_backward_def cmd_turn_left_def cmd_turn_right_def cmd_pivot_left_def
  cmd_pivot_right_def cmd_stop_def cmd_brake_def cmd_speed_up_def cmd_speed_down_def
  cmd_set_speed_def cmd_inspect_start_def cmd_inspect_stop_def cmd_inspect_pause_def
  cmd_inspect_resume_def cmd_estop_def cmd_estop_release_def cmd_light_on_def
  cmd_light_off_def cmd_light_set_def cmd_snapshot_def cmd_ping_def cmd_reset_odometry_def

lemmas nav_defs =
  handle_command_def action_of_def handlers_def VALID_COMMANDS_def strip_def lower_def lower_char_def
  isspace_def resp_def nav_set_state_def nav_set_speed_def on_motors_def on_leds_def
  update_overlay_def SPEED_STEP_def env0_def cmd_of_def

lemma advancing_eq:
  "advancing =
     (build_robot 0)
       \<lparr>motors := motors_init\<lparr>target_left := 60, target_right := 60\<rparr>,
        nav := \<lparr>state = MOVING_FORWARD, speed_pct = 60, inspecting = False,
                start_time = None\<rparr>,
        leds := \<lparr>current_state = ''moving'', lighting_duty = 80, flashes = []\<rparr>\<rparr>"
  by (simp add: advancing_def nav_defs handler_defs safety_defs led_defs motor_defs Let_def)

lemma turning_eq:
  "turning =
     (build_robot 0)
       \<lparr>motors := motors_init\<lparr>target_left := 42, target_right := 60\<rparr>,
        nav := \<lparr>state = TURNING_LEFT, speed_pct = 60, inspecting = False,
                start_time = None\<rparr>,
        leds := \<lparr>current_state = ''moving'', lighting_duty = 80, flashes = []\<rparr>\<rparr>"
  by (simp add: turning_def nav_defs handler_defs safety_defs led_defs motor_defs Let_def)

lemma estopped_eq:
  "estopped =
     (build_robot 0)
       \<lparr>motors := motors_init\<lparr>emergency := True\<rparr>,
        nav := \<lparr>state = EMERGENCY_STOP, speed_pct = 60, inspecting = False,
                start_time = None\<rparr>,
        leds := \<lparr>current_state = ''emergency'', lighting_duty = 80, flashes = []\<rparr>\<rparr>"
  by (simp add: estopped_def nav_defs handler_defs safety_defs led_defs motor_defs Let_def)

lemma released_eq:
  "released =
     (build_robot 0)
       \<lparr>safety := \<lparr>estop_active = True, last_command_t = 0, nav_linked = True\<rparr>\<rparr>"
  by (simp add: released_def nav_defs handler_defs safety_defs led_defs motor_defs Let_def)

lemma moving_again_eq:
  "moving_again =
     (build_robot 0)
       \<lparr>motors := motors_init\<lparr>target_left := 60, target_right := 60\<rparr>,
        nav := \<lparr>state = MOVING_FORWARD, speed_pct = 60, inspecting = False,
                start_time = None\<rparr>,
        leds := \<lparr>current_state = ''moving'', lighting_duty = 80, flashes = []\<rparr>,
        safety := \<lparr>estop_active = True, last_command_t = 0, nav_linked = True\<rparr>\<rparr>"
  by (simp add: moving_again_def released_eq)
     (simp add: nav_defs handler_defs safety_defs led_defs motor_defs Let_def)

section \<open>The emergency latch of the safety manager\<close>

lemma trigger_latched: "estop_active (safety s) \<Longrightarrow> trigger_emergency s = s"
  by (simp add: trigger_emergency_def)

lemma trigger_sets: "estop_active (safety (trigger_emergency s))"
  by (simp add: trigger_emergency_def Let_def)

lemma trigger_effect:
  "\<not> estop_active (safety s) \<Longrightarrow>
   trigger_emergency s =
     s\<lparr>safety := (safety s)\<lparr>estop_active := True\<rparr>,
       motors := emergency_stop (motors s),
       leds := set_state ''emergency'' (leds s),
       nav := (if nav_linked (safety s) then (nav s)\<lparr>state := EMERGENCY_STOP\<rparr>
               else nav s)\<rparr>"
  by (simp add: trigger_emergency_def Let_def)

text \<open>
  No command handler writes the safety manager: the latch and the watchdog clock are
  the same before and after any command.
\<close>

lemma handler_safety:
  "(a, h) \<in> set handlers \<Longrightarrow> safety (snd (h e cmd s)) = safety s"
  by (auto simp add: handlers_def handler_defs Let_def on_motors_def on_leds_def
        nav_set_state_def nav_set_speed_def update_overlay_def)

lemma handle_command_safety: "safety (snd (handle_command e cmd s)) = safety s"
  by (auto simp add: handle_command_def Let_def split: option.splits
        dest: map_of_SomeD handler_safety)

text \<open>
  C1. The claim: the \<open>estop\<close> command sets the safety manager's latch, and the
  \<open>estop_release\<close> command goes through the safety manager's \<open>release_emergency\<close>
  (latch cleared, watchdog clock reset). The code does neither: both handlers drive
  the motor controller directly. Run on concrete inputs:
  \<^item> after \<open>estop\<close> on a fresh robot the motors are latched and the state is
    EMERGENCY_STOP, but \<open>is_emergency\<close> is still false (\<open>trigger_emergency\<close> on the
    same robot makes it true);
  \<^item> after \<open>trigger_emergency\<close> and then \<open>estop_release\<close> at time 100, the latch is
    still set and the watchdog clock still reads 0 (\<open>release_emergency\<close> clears the
    one and sets the other to 100);
  \<^item> from there \<open>forward\<close> is accepted, and a critical front obstacle no longer stops
    the robot, since \<open>trigger_emergency\<close> finds the latch set and returns.
\<close>

theorem estop_commands_bypass_safety_manager:
  "state (nav estopped) = EMERGENCY_STOP
   \<and> emergency (motors estopped)
   \<and> \<not> is_emergency estopped
   \<and> is_emergency (trigger_emergency (build_robot 0))
   \<and> is_emergency released
   \<and> last_command_t (safety released) = 0
   \<and> \<not> is_emergency (release_emergency 100 (trigger_emergency (build_robot 0)))
   \<and> last_command_t (safety (release_emergency 100 (trigger_emergency (build_robot 0)))) = 100
   \<and> state (nav moving_again) = MOVING_FORWARD
   \<and> target_left (motors moving_again) = 60
   \<and> target_right (motors moving_again) = 60
   \<and> on_obstacle_critical ''front'' 10 moving_again = moving_again"
  by (simp add: estopped_eq released_eq moving_again_eq)
     (simp add: safety_defs led_defs motor_defs Let_def)

text \<open>
  C4. \<open>trigger_emergency\<close> is idempotent: it sets the latch, with the latch set it
  changes nothing, and any number of further calls after a first one leaves the whole
  robot (latch, motors, indicator, RobotState) as the first call left it.
\<close>

theorem trigger_emergency_idempotent:
  "estop_active (safety (trigger_emergency s))
   \<and> (estop_active (safety s) \<longrightarrow> trigger_emergency s = s)
   \<and> (trigger_emergency ^^ n) (trigger_emergency s) = trigger_emergency s"
proof -
  have "(trigger_emergency ^^ n) (trigger_emergency s) = trigger_emergency s"
    by (induction n) (simp_all add: trigger_latched trigger_sets)
  then show ?thesis by (simp add: trigger_latched trigger_sets)
qed

theorem trigger_emergency_idempotent_witness:
  "estop_active (safety (trigger_emergency advancing))
   \<and> trigger_emergency (trigger_emergency advancing) = trigger_emergency advancing
   \<and> (trigger_emergency ^^ 3) (trigger_emergency advancing) = trigger_emergency advancing
   \<and> state (nav (trigger_emergency advancing)) = EMERGENCY_STOP
   \<and> emergency (motors (trigger_emergency advancing))"
proof -
  have h: "estop_active (safety (trigger_emergency advancing))"
    by (simp add: advancing_eq safety_defs Let_def)
  have e: "state (nav (trigger_emergency advancing)) = EMERGENCY_STOP
           \<and> emergency (motors (trigger_emergency advancing))"
    by (simp add: advancing_eq safety_defs led_defs motor_defs Let_def)
  from h e trigger_emergency_idempotent [of "trigger_emergency advancing" 0]
    trigger_emergency_idempotent [of advancing 3]
  show ?thesis by simp
qed

section \<open>The critical-obstacle callback\<close>

text \<open>
  C2, as stated: in every case where the sensor does not correlate with the commanded
  motion the callback performs a non-latching \<open>brake()\<close>. It fails on a robot that is
  turning left (navigation linked) when the left sensor reports 10 cm: the callback
  returns the robot unchanged, the right wheel target stays at 60, where \<open>brake()\<close>
  would have set it to 0.
\<close>

theorem on_obstacle_critical_counterexample:
  "nav_linked (safety turning)
   \<and> state (nav turning) = TURNING_LEFT
   \<and> on_obstacle_critical ''left'' 10 turning = turning
   \<and> target_right (motors (on_obstacle_critical ''left'' 10 turning)) = 60
   \<and> target_right (brake (motors turning)) = 0"
  by (simp add: turning_eq) (simp add: safety_defs motor_defs Let_def)

text \<open>
  C2, amended. With the navigation controller linked, the callback calls
  \<open>trigger_emergency\<close> if and only if the sensor correlates with the commanded motion
  (front while MOVING_FORWARD, rear while MOVING_BACKWARD), and otherwise does nothing
  at all: no brake, no latch. Only when no navigation controller is linked does it
  perform the non-latching \<open>brake()\<close>, which leaves both latches as they were.
\<close>

theorem on_obstacle_critical_cases:
  "(nav_linked (safety s)
      \<and> ((state (nav s) = MOVING_FORWARD \<and> sensor_name = ''front'')
           \<or> (state (nav s) = MOVING_BACKWARD \<and> sensor_name = ''rear''))
      \<longrightarrow> on_obstacle_critical sensor_name dist_cm s = trigger_emergency s
          \<and> estop_active (safety (on_obstacle_critical sensor_name dist_cm s)))
   \<and> (nav_linked (safety s)
      \<and> \<not> ((state (nav s) = MOVING_FORWARD \<and> sensor_name = ''front'')
           \<or> (state (nav s) = MOVING_BACKWARD \<and> sensor_name = ''rear''))
      \<longrightarrow> on_obstacle_critical sensor_name dist_cm s = s)
   \<and> (\<not> nav_linked (safety s)
      \<longrightarrow> on_obstacle_critical sensor_name dist_cm s = s\<lparr>motors := brake (motors s)\<rparr>
          \<and> safety (on_obstacle_critical sensor_name dist_cm s) = safety s
          \<and> emergency (motors (on_obstacle_critical sensor_name dist_cm s))
            = emergency (motors s))"
  by (auto simp add: on_obstacle_critical_def Let_def brake_def trigger_sets)

theorem on_obstacle_critical_cases_witness:
  "nav_linked (safety advancing) \<and> state (nav advancing) = MOVING_FORWARD
   \<and> on_obstacle_critical ''front'' 10 advancing = trigger_emergency advancing
   \<and> estop_active (safety (on_obstacle_critical ''front'' 10 advancing))
   \<and> on_obstacle_critical ''rear'' 10 advancing = advancing
   \<and> \<not> nav_linked (safety (advancing\<lparr>safety := (safety advancing)\<lparr>nav_linked := False\<rparr>\<rparr>))
   \<and> target_left (motors (on_obstacle_critical ''left'' 10
        (advancing\<lparr>safety := (safety advancing)\<lparr>nav_linked := False\<rparr>\<rparr>))) = 0"
proof -
  have h: "nav_linked (safety advancing) \<and> state (nav advancing) = MOVING_FORWARD"
    by (simp add: advancing_eq build_robot_def)
  have b: "target_left (brake (motors advancing)) = 0"
    by (simp add: brake_def)
  from h b on_obstacle_critical_cases [of advancing "''front''" 10]
    on_obstacle_critical_cases [of advancing "''rear''" 10]
    on_obstacle_critical_cases
      [of "advancing\<lparr>safety := (safety advancing)\<lparr>nav_linked := False\<rparr>\<rparr>" "''left''" 10]
  show ?thesis by (simp add: trigger_sets)
qed

section \<open>Commands while in EMERGENCY_STOP\<close>

text \<open>
  C3, as stated: every command whose action is not \<open>estop_release\<close> and not \<open>ping\<close> is
  answered, in EMERGENCY_STOP, with the "emergency stop active" message. It fails on
  the action \<open>unknown_xyz\<close>, which is answered "Commande inconnue" (the validity check
  comes first), and on the action \<open>PING\<close>, a string that is neither \<open>estop_release\<close>
  nor \<open>ping\<close> and is accepted with "pong" (the action is lower-cased and stripped
  before any check).
\<close>

theorem handle_command_emergency_counterexample:
  "state (nav estopped) = EMERGENCY_STOP
   \<and> r_msg (fst (handle_command env0 (cmd_of ''unknown_xyz'') estopped))
     = Commande_inconnue ''unknown_xyz''
   \<and> r_msg (fst (handle_command env0 (cmd_of ''unknown_xyz'') estopped))
     \<noteq> ARRET_URGENCE_actif
   \<and> r_ok (fst (handle_command env0 (cmd_of ''PING'') estopped))
   \<and> r_msg (fst (handle_command env0 (cmd_of ''PING'') estopped)) = Pong"
proof -
  have n: "action_of (cmd_of ''PING'') = ''ping''"
    by code_simp
  have u: "action_of (cmd_of ''unknown_xyz'') = ''unknown_xyz''"
    by code_simp
  have st: "state (nav estopped) = EMERGENCY_STOP"
    by (simp add: estopped_eq)
  show ?thesis
    by (simp add: handle_command_def n u st Let_def VALID_COMMANDS_def handlers_def
          cmd_ping_def resp_def)
qed

text \<open>
  C3, amended. In EMERGENCY_STOP, every command whose normalised action (lower-cased,
  stripped) is not \<open>estop_release\<close> and not \<open>ping\<close> gets a failure result and leaves
  the whole robot, RobotState and stored speed included, unchanged; the message is
  "emergency stop active" when the normalised action is one of the valid commands, and
  names the unknown command otherwise.
\<close>

theorem handle_command_rejects_in_emergency:
  assumes "state (nav s) = EMERGENCY_STOP"
      and "action_of cmd \<noteq> ''estop_release''"
      and "action_of cmd \<noteq> ''ping''"
  shows "handle_command e cmd s =
           (resp False
              (if action_of cmd \<in> set VALID_COMMANDS then ARRET_URGENCE_actif
               else Commande_inconnue (action_of cmd))
              NoExtra s, s)
         \<and> \<not> r_ok (fst (handle_command e cmd s))
         \<and> r_state (fst (handle_command e cmd s)) = EMERGENCY_STOP
         \<and> r_speed (fst (handle_command e cmd s)) = speed_pct (nav s)
         \<and> snd (handle_command e cmd s) = s"
  using assms by (simp add: handle_command_def Let_def resp_def)

theorem handle_command_rejects_in_emergency_witness:
  "state (nav estopped) = EMERGENCY_STOP
   \<and> action_of (cmd_of ''forward'') = ''forward''
   \<and> handle_command env0 (cmd_of ''forward'') estopped
     = (\<lparr>r_ok = False, r_msg = ARRET_URGENCE_actif, r_state = EMERGENCY_STOP,
         r_speed = 60, r_extra = NoExtra\<rparr>, estopped)"
proof -
  have st: "state (nav estopped) = EMERGENCY_STOP \<and> speed_pct (nav estopped) = 60"
    by (simp add: estopped_eq)
  have a: "action_of (cmd_of ''forward'') = ''forward''"
    by code_simp
  from st a handle_command_rejects_in_emergency [of estopped "cmd_of ''forward''" env0]
  show ?thesis by (simp add: VALID_COMMANDS_def resp_def)
qed

section \<open>The motor drive\<close>

subsection \<open>Targets\<close>

text \<open>
  C6. \<open>set_targets\<close> stores both arguments clamped into [-100, 100] when the motor
  latch (\<open>MotorController._emergency\<close>) is not set, and with the latch set it leaves
  the whole motor state (both targets included) unchanged, returning normally. The
  latch is the one \<open>emergency_stop\<close> sets, so it is set once the safety manager has
  triggered an emergency.
\<close>

theorem set_targets_clamps:
  "(\<not> emergency m \<longrightarrow>
      target_left (set_targets l r m) = max (- 100) (min 100 l)
      \<and> target_right (set_targets l r m) = max (- 100) (min 100 r)
      \<and> - 100 \<le> target_left (set_targets l r m)
      \<and> target_left (set_targets l r m) \<le> 100
      \<and> - 100 \<le> target_right (set_targets l r m)
      \<and> target_right (set_targets l r m) \<le> 100)
   \<and> (emergency m \<longrightarrow> set_targets l r m = m)
   \<and> set_targets l r (emergency_stop m) = emergency_stop m
   \<and> (\<not> estop_active (safety s) \<longrightarrow>
         set_targets l r (motors (trigger_emergency s)) = motors (trigger_emergency s))"
  by (simp add: set_targets_def SPEED_MAX_PERCENT_def trigger_effect emergency_stop_def)

theorem set_targets_clamps_witness:
  "\<not> emergency motors_init
   \<and> target_left (set_targets 150 (- 30) motors_init) = 100
   \<and> target_right (set_targets 150 (- 30) motors_init) = - 30
   \<and> emergency (emergency_stop (motors advancing))
   \<and> set_targets 150 (- 30) (emergency_stop (motors advancing))
     = emergency_stop (motors advancing)
   \<and> target_left (set_targets 150 (- 30) (emergency_stop (motors advancing))) = 0"
proof -
  have h1: "\<not> emergency motors_init"
    by (simp add: motors_init_def)
  have h2: "emergency (emergency_stop (motors advancing))
            \<and> target_left (emergency_stop (motors advancing)) = 0"
    by (simp add: emergency_stop_def)
  from h1 h2 set_targets_clamps [of motors_init 150 "- 30" advancing]
    set_targets_clamps [of "emergency_stop (motors advancing)" 150 "- 30" advancing]
  show ?thesis by simp
qed

subsection \<open>The ramp\<close>

lemma ramp_next_snap: "\<bar>c - t\<bar> < 5 \<Longrightarrow> ramp_next c t = t"
  by (simp add: ramp_next_def RAMP_STEP_def)

lemma ramp_next_move:
  "5 \<le> \<bar>c - t\<bar> \<Longrightarrow>
     ramp_next c t = (if c < t then c + 5 else c - 5)
     \<and> \<bar>ramp_next c t - t\<bar> = \<bar>c - t\<bar> - 5"
  by (auto simp add: ramp_next_def RAMP_STEP_def)

lemma ramp_next_between:
  "(c \<le> t \<longrightarrow> c \<le> ramp_next c t \<and> ramp_next c t \<le> t)
   \<and> (t \<le> c \<longrightarrow> t \<le> ramp_next c t \<and> ramp_next c t \<le> c)"
  by (auto simp add: ramp_next_def RAMP_STEP_def)

text \<open>Towards a fixed target, a wheel arrives after the ceiling of gap / step ticks.\<close>

lemma ramp_next_converges:
  "nat \<lceil>\<bar>c - t\<bar> / 5\<rceil> \<le> n \<Longrightarrow> ((\<lambda>x. ramp_next x t) ^^ n) c = t"
proof (induction n arbitrary: c)
  case 0
  then have "\<lceil>\<bar>c - t\<bar> / 5\<rceil> \<le> 0" by simp
  then have "\<bar>c - t\<bar> / 5 \<le> 0" by (simp add: ceiling_le_iff)
  then have "c = t" by simp
  then show ?case by simp
next
  case (Suc n)
  show ?case
  proof (cases "\<bar>c - t\<bar> < 5")
    case True
    then have "ramp_next c t = t" by (rule ramp_next_snap)
    moreover have "((\<lambda>x. ramp_next x t) ^^ n) t = t"
      by (rule Suc.IH) simp
    ultimately show ?thesis unfolding funpow_Suc_right o_apply by simp
  next
    case False
    then have g: "\<bar>ramp_next c t - t\<bar> = \<bar>c - t\<bar> - 5"
      using ramp_next_move [of c t] by simp
    have "\<lceil>\<bar>ramp_next c t - t\<bar> / 5\<rceil> = \<lceil>\<bar>c - t\<bar> / 5\<rceil> - 1"
      unfolding g by (simp add: diff_divide_distrib)
    with Suc.prems have "nat \<lceil>\<bar>ramp_next c t - t\<bar> / 5\<rceil> \<le> n" by linarith
    then have "((\<lambda>x. ramp_next x t) ^^ n) (ramp_next c t) = t" by (rule Suc.IH)
    then show ?thesis unfolding funpow_Suc_right o_apply by simp
  qed
qed

subsection \<open>Rescaling the speed\<close>

lemma handle_command_speed_up:
  "state (nav s) \<noteq> EMERGENCY_STOP \<Longrightarrow>
   handle_command e \<lparr>action = Some ''speed_up'', val = x\<rparr> s
     = cmd_speed_up e \<lparr>action = Some ''speed_up'', val = x\<rparr> s"
  by (simp add: handle_command_def action_of_def Let_def strip_def lower_def lower_char_def
        isspace_def VALID_COMMANDS_def handlers_def)

lemma handle_command_speed_down:
  "state (nav s) \<noteq> EMERGENCY_STOP \<Longrightarrow>
   handle_command e \<lparr>action = Some ''speed_down'', val = x\<rparr> s
     = cmd_speed_down e \<lparr>action = Some ''speed_down'', val = x\<rparr> s"
  by (simp add: handle_command_def action_of_def Let_def strip_def lower_def lower_char_def
        isspace_def VALID_COMMANDS_def handlers_def)

lemma handle_command_set_speed:
  "state (nav s) \<noteq> EMERGENCY_STOP \<Longrightarrow>
   handle_command e \<lparr>action = Some ''set_speed'', val = x\<rparr> s
     = cmd_set_speed e \<lparr>action = Some ''set_speed'', val = x\<rparr> s"
  by (simp add: handle_command_def action_of_def Let_def strip_def lower_def lower_char_def
        isspace_def VALID_COMMANDS_def handlers_def)

lemma set_speed_pct_forward:
  "target_left m = 0 \<Longrightarrow> target_right m = 0 \<Longrightarrow>
   set_speed_pct v m = forward (Some (max SPEED_MIN_PERCENT \<bar>v\<bar>)) m"
  by (simp add: set_speed_pct_def forward_def Let_def)

text \<open>
  C10. For every argument \<open>v\<close>, \<open>set_speed_pct\<close> hands \<open>set_targets\<close> the magnitude
  max(SPEED_MIN_PERCENT, |v|), which is at least 20, with the sign of each wheel's
  current target, a target of exactly 0 counting as positive. So, unless the motor
  latch makes \<open>set_targets\<close> ignore the call, no wheel target is below 20 in magnitude
  afterwards; and with both targets at 0 the call is the call \<open>forward\<close> at that
  magnitude: both targets become min(100, max(20, |v|)). The \<open>speed_up\<close>,
  \<open>speed_down\<close> and \<open>set_speed\<close> commands reach \<open>set_speed_pct\<close> with the new stored
  speed, so on a robot at rest they command forward motion too.
\<close>

theorem set_speed_pct_never_stops:
  "set_speed_pct v m
     = set_targets ((if target_left m \<ge> 0 then 1 else - 1) * max SPEED_MIN_PERCENT \<bar>v\<bar>)
                   ((if target_right m \<ge> 0 then 1 else - 1) * max SPEED_MIN_PERCENT \<bar>v\<bar>) m
   \<and> 20 \<le> max SPEED_MIN_PERCENT \<bar>v\<bar>
   \<and> (\<not> emergency m \<longrightarrow>
         20 \<le> \<bar>target_left (set_speed_pct v m)\<bar>
         \<and> 20 \<le> \<bar>target_right (set_speed_pct v m)\<bar>
         \<and> (target_left m = 0 \<longrightarrow> 20 \<le> target_left (set_speed_pct v m))
         \<and> (target_right m = 0 \<longrightarrow> 20 \<le> target_right (set_speed_pct v m)))
   \<and> (target_left m = 0 \<and> target_right m = 0 \<longrightarrow>
         set_speed_pct v m = forward (Some (max SPEED_MIN_PERCENT \<bar>v\<bar>)) m
         \<and> (\<not> emergency m \<longrightarrow>
               target_left (set_speed_pct v m) = min 100 (max 20 \<bar>v\<bar>)
               \<and> target_right (set_speed_pct v m) = min 100 (max 20 \<bar>v\<bar>)))
   \<and> (state (nav s) \<noteq> EMERGENCY_STOP \<longrightarrow>
         motors (snd (handle_command e \<lparr>action = Some ''speed_up'', val = x\<rparr> s))
           = set_speed_pct (min 100 (speed_pct (nav s) + 10)) (motors s)
         \<and> motors (snd (handle_command e \<lparr>action = Some ''speed_down'', val = x\<rparr> s))
           = set_speed_pct (max 20 (speed_pct (nav s) - 10)) (motors s)
         \<and> motors (snd (handle_command e \<lparr>action = Some ''set_speed'', val = x\<rparr> s))
           = set_speed_pct
               (max 20 (min 100 (case x of Some y \<Rightarrow> y | None \<Rightarrow> speed_pct (nav s))))
               (motors s))"
proof -
  have a: "set_speed_pct v m
     = set_targets ((if target_left m \<ge> 0 then 1 else - 1) * max SPEED_MIN_PERCENT \<bar>v\<bar>)
                   ((if target_right m \<ge> 0 then 1 else - 1) * max SPEED_MIN_PERCENT \<bar>v\<bar>) m"
    by (simp add: set_speed_pct_def Let_def)
  have b: "20 \<le> max SPEED_MIN_PERCENT \<bar>v\<bar>"
    by (simp add: SPEED_MIN_PERCENT_def)
  have c: "\<not> emergency m \<longrightarrow>
         20 \<le> \<bar>target_left (set_speed_pct v m)\<bar>
         \<and> 20 \<le> \<bar>target_right (set_speed_pct v m)\<bar>
         \<and> (target_left m = 0 \<longrightarrow> 20 \<le> target_left (set_speed_pct v m))
         \<and> (target_right m = 0 \<longrightarrow> 20 \<le> target_right (set_speed_pct v m))"
    by (auto simp add: set_speed_pct_def set_targets_def Let_def SPEED_MIN_PERCENT_def
          SPEED_MAX_PERCENT_def max_def min_def)
  have d: "target_left m = 0 \<and> target_right m = 0 \<longrightarrow>
         set_speed_pct v m = forward (Some (max SPEED_MIN_PERCENT \<bar>v\<bar>)) m
         \<and> (\<not> emergency m \<longrightarrow>
               target_left (set_speed_pct v m) = min 100 (max 20 \<bar>v\<bar>)
               \<and> target_right (set_speed_pct v m) = min 100 (max 20 \<bar>v\<bar>))"
    by (auto simp add: set_speed_pct_forward forward_def set_targets_def Let_def
          SPEED_MIN_PERCENT_def SPEED_MAX_PERCENT_def max_def min_def)
  have h: "state (nav s) \<noteq> EMERGENCY_STOP \<longrightarrow>
         motors (snd (handle_command e \<lparr>action = Some ''speed_up'', val = x\<rparr> s))
           = set_speed_pct (min 100 (speed_pct (nav s) + 10)) (motors s)
         \<and> motors (snd (handle_command e \<lparr>action = Some ''speed_down'', val = x\<rparr> s))
           = set_speed_pct (max 20 (speed_pct (nav s) - 10)) (motors s)
         \<and> motors (snd (handle_command e \<lparr>action = Some ''set_speed'', val = x\<rparr> s))
           = set_speed_pct
               (max 20 (min 100 (case x of Some y \<Rightarrow> y | None \<Rightarrow> speed_pct (nav s))))
               (motors s)"
    by (simp add: handle_command_speed_up handle_command_speed_down handle_command_set_speed
          cmd_speed_up_def cmd_speed_down_def cmd_set_speed_def Let_def nav_set_speed_def
          on_motors_def SPEED_STEP_def)
  from a b c d h show ?thesis by blast
qed

theorem set_speed_pct_never_stops_witness:
  "\<not> emergency (motors (build_robot 0))
   \<and> target_left (motors (build_robot 0)) = 0
   \<and> target_right (motors (build_robot 0)) = 0
   \<and> state (nav (build_robot 0)) \<noteq> EMERGENCY_STOP
   \<and> target_left (set_speed_pct 0 (motors (build_robot 0))) = 20
   \<and> target_right (set_speed_pct 0 (motors (build_robot 0))) = 20
   \<and> target_left (motors (snd (handle_command env0 \<lparr>action = Some ''speed_up'', val = None\<rparr>
        (build_robot 0)))) = 70
   \<and> target_left (motors (snd (handle_command env0 \<lparr>action = Some ''set_speed'', val = Some 0\<rparr>
        (build_robot 0)))) = 20"
proof -
  have h: "\<not> emergency (motors (build_robot 0))
           \<and> target_left (motors (build_robot 0)) = 0
           \<and> target_right (motors (build_robot 0)) = 0
           \<and> state (nav (build_robot 0)) \<noteq> EMERGENCY_STOP
           \<and> speed_pct (nav (build_robot 0)) = 60"
    by (simp add: build_robot_def motors_init_def)
  from h set_speed_pct_never_stops [of 0 "motors (build_robot 0)" "build_robot 0" env0 None]
    set_speed_pct_never_stops [of 70 "motors (build_robot 0)" "build_robot 0" env0 "Some 0"]
    set_speed_pct_never_stops [of 20 "motors (build_robot 0)" "build_robot 0" env0 "Some 0"]
  show ?thesis by (simp add: motor_defs)
qed

section \<open>The ramp thread and the running machine\<close>

lemma motors_new_eq: "motors_new = (Ended, motors_init)"
  by (simp add: motors_new_def ramp_loop_pass_def motors_init_def)

lemma ch_set_speed_out:
  "ch_speed (ch_set_speed x ch) = max (- 100) (min 100 x)
   \<and> duty (ch_set_speed x ch) = \<bar>max (- 100) (min 100 x)\<bar>"
  by (auto simp add: ch_set_speed_def Let_def ch_brake_def pwm_stop_def set_duty_def
        set_direction_def max_def min_def)

lemma ramp_body_fields:
  "current_left (ramp_body m) = ramp_next (current_left m) (target_left m)
   \<and> current_right (ramp_body m) = ramp_next (current_right m) (target_right m)
   \<and> target_left (ramp_body m) = target_left m
   \<and> target_right (ramp_body m) = target_right m
   \<and> emergency (ramp_body m) = emergency m
   \<and> left (ramp_body m) = ch_set_speed (ramp_next (current_left m) (target_left m)) (left m)
   \<and> right (ramp_body m)
     = ch_set_speed (ramp_next (current_right m) (target_right m)) (right m)"
  by (simp add: ramp_body_def Let_def)

lemma ramp_pass_Ended: "fst mc = Ended \<Longrightarrow> ramp_pass mc = mc"
  by (cases mc) (simp add: ramp_pass_def ramp_loop_pass_def)

lemma ramp_pass_latched: "emergency (motors (snd mc)) \<Longrightarrow> ramp_pass mc = mc"
  by (cases mc) (simp add: ramp_pass_def ramp_loop_pass_def split: ramp_thread.splits)

lemma ramp_pass_Running:
  "fst mc = Running \<Longrightarrow> \<not> emergency (motors (snd mc)) \<Longrightarrow>
   ramp_pass mc = (Running, (snd mc)\<lparr>motors := ramp_body (motors (snd mc))\<rparr>)"
  by (cases mc) (simp add: ramp_pass_def ramp_loop_pass_def)

lemma ramp_pass_rest:
  "fst (ramp_pass mc) = fst mc
   \<and> safety (snd (ramp_pass mc)) = safety (snd mc)
   \<and> nav (snd (ramp_pass mc)) = nav (snd mc)
   \<and> leds (snd (ramp_pass mc)) = leds (snd mc)
   \<and> emergency (motors (snd (ramp_pass mc))) = emergency (motors (snd mc))
   \<and> target_left (motors (snd (ramp_pass mc))) = target_left (motors (snd mc))
   \<and> target_right (motors (snd (ramp_pass mc))) = target_right (motors (snd mc))"
  by (cases mc)
     (simp add: ramp_pass_def ramp_loop_pass_def ramp_body_fields split: ramp_thread.splits)

lemma run_append: "run (xs @ ys) mc = run ys (run xs mc)"
  by (induction xs arbitrary: mc) simp_all

lemma run_ramp_rest:
  "fst (run (replicate n RampPass) mc) = fst mc
   \<and> safety (snd (run (replicate n RampPass) mc)) = safety (snd mc)
   \<and> nav (snd (run (replicate n RampPass) mc)) = nav (snd mc)
   \<and> leds (snd (run (replicate n RampPass) mc)) = leds (snd mc)
   \<and> emergency (motors (snd (run (replicate n RampPass) mc))) = emergency (motors (snd mc))
   \<and> target_left (motors (snd (run (replicate n RampPass) mc))) = target_left (motors (snd mc))
   \<and> target_right (motors (snd (run (replicate n RampPass) mc)))
     = target_right (motors (snd mc))"
  by (induction n arbitrary: mc) (simp_all add: ramp_pass_rest)

lemma run_ramp_idle:
  "fst mc = Ended \<or> emergency (motors (snd mc)) \<Longrightarrow> run (replicate n RampPass) mc = mc"
  by (induction n) (auto simp add: ramp_pass_Ended ramp_pass_latched)

lemma run_ramp_Running:
  "fst mc = Running \<Longrightarrow> \<not> emergency (motors (snd mc)) \<Longrightarrow>
   current_left (motors (snd (run (replicate n RampPass) mc)))
     = ((\<lambda>x. ramp_next x (target_left (motors (snd mc)))) ^^ n) (current_left (motors (snd mc)))
   \<and> current_right (motors (snd (run (replicate n RampPass) mc)))
     = ((\<lambda>x. ramp_next x (target_right (motors (snd mc)))) ^^ n)
         (current_right (motors (snd mc)))"
proof (induction n arbitrary: mc)
  case 0
  then show ?case by simp
next
  case (Suc n)
  let ?mc = "ramp_pass mc"
  have r: "fst ?mc = Running" "\<not> emergency (motors (snd ?mc))"
    using Suc.prems by (simp_all add: ramp_pass_rest)
  have c: "current_left (motors (snd ?mc))
             = ramp_next (current_left (motors (snd mc))) (target_left (motors (snd mc)))"
          "current_right (motors (snd ?mc))
             = ramp_next (current_right (motors (snd mc))) (target_right (motors (snd mc)))"
    using Suc.prems by (simp_all add: ramp_pass_Running ramp_body_fields)
  from Suc.IH [OF r] c show ?case
    unfolding funpow_Suc_right o_apply by (simp add: ramp_pass_rest)
qed

subsection \<open>What holds of the motor drive in every run\<close>

lemma drive_ok_init: "drive_ok th motors_init"
  by (simp add: drive_ok_def motors_init_def)

lemma drive_ok_set_targets: "drive_ok th m \<Longrightarrow> drive_ok th (set_targets l r m)"
  by (simp add: drive_ok_def set_targets_def)

lemma drive_ok_brake: "drive_ok th (brake m)"
  by (simp add: drive_ok_def brake_def ch_brake_def pwm_stop_def set_duty_def)

lemma drive_ok_emergency_stop: "drive_ok th (emergency_stop m)"
  by (simp add: drive_ok_def emergency_stop_def ch_coast_def pwm_stop_def set_duty_def)

lemma drive_ok_release: "drive_ok th m \<Longrightarrow> drive_ok th (motors_release_emergency m)"
  by (simp add: drive_ok_def motors_release_emergency_def)

lemma drive_ok_reset_odometry: "drive_ok th m \<Longrightarrow> drive_ok th (reset_odometry m)"
  by (simp add: drive_ok_def reset_odometry_def)

lemma drive_ok_update_odometry: "drive_ok th m \<Longrightarrow> drive_ok th (update_odometry m)"
  by (simp add: drive_ok_def update_odometry_def Let_def)

lemma drive_ok_ticks:
  "drive_ok th m \<Longrightarrow> drive_ok th (tick_left m) \<and> drive_ok th (tick_right m)"
  by (simp add: drive_ok_def tick_left_def tick_right_def)

lemma drive_ok_ramp_body:
  "drive_ok Running m \<Longrightarrow> \<not> emergency m \<Longrightarrow> drive_ok Running (ramp_body m)"
  by (simp add: drive_ok_def ramp_body_fields ch_set_speed_out)

lemmas drive_ok_motion =
  drive_ok_set_targets drive_ok_brake drive_ok_emergency_stop drive_ok_release
  drive_ok_reset_odometry

lemma drive_ok_api:
  "drive_ok th m \<Longrightarrow>
   drive_ok th (forward v m) \<and> drive_ok th (backward v m) \<and> drive_ok th (turn_left v m)
   \<and> drive_ok th (turn_right v m) \<and> drive_ok th (pivot_left v m)
   \<and> drive_ok th (pivot_right v m) \<and> drive_ok th (set_speed_pct x m) \<and> drive_ok th (stop m)"
  by (simp add: forward_def backward_def turn_left_def turn_right_def pivot_left_def
        pivot_right_def set_speed_pct_def stop_def Let_def drive_ok_set_targets)

lemma drive_ok_handler:
  "(a, h) \<in> set handlers \<Longrightarrow> drive_ok th (motors s) \<Longrightarrow>
   drive_ok th (motors (snd (h e cmd s)))"
  by (auto simp add: handlers_def handler_defs Let_def on_motors_def on_leds_def
        nav_set_state_def nav_set_speed_def update_overlay_def drive_ok_api drive_ok_motion)

lemma drive_ok_handle_command:
  "drive_ok th (motors s) \<Longrightarrow> drive_ok th (motors (snd (handle_command e cmd s)))"
  by (auto simp add: handle_command_def Let_def split: option.splits
        dest: map_of_SomeD drive_ok_handler)

lemma drive_ok_trigger:
  "drive_ok th (motors s) \<Longrightarrow> drive_ok th (motors (trigger_emergency s))"
  by (simp add: trigger_emergency_def Let_def drive_ok_emergency_stop)

lemma drive_ok_callbacks:
  "drive_ok th (motors s) \<Longrightarrow>
   drive_ok th (motors (on_obstacle_critical name d s))
   \<and> drive_ok th (motors (on_obstacle_warning name d s))
   \<and> drive_ok th (motors (on_low_battery soc s))
   \<and> drive_ok th (motors (watchdog_check t s))
   \<and> drive_ok th (motors (check_fosse_limits d s))
   \<and> drive_ok th (motors (heartbeat t s))
   \<and> drive_ok th (motors (on_estop_gpio s))"
  by (simp add: on_obstacle_critical_def on_obstacle_warning_def on_low_battery_def
        watchdog_check_def check_fosse_limits_def heartbeat_def on_estop_gpio_def Let_def
        drive_ok_trigger drive_ok_brake drive_ok_api)

lemma drive_ok_ramp_pass:
  "drive_ok (fst mc) (motors (snd mc)) \<Longrightarrow>
   drive_ok (fst (ramp_pass mc)) (motors (snd (ramp_pass mc)))"
proof (cases "fst mc = Ended \<or> emergency (motors (snd mc))")
  case True
  assume "drive_ok (fst mc) (motors (snd mc))"
  with True show ?thesis by (auto simp add: ramp_pass_Ended ramp_pass_latched)
next
  case False
  assume ok: "drive_ok (fst mc) (motors (snd mc))"
  from False have r: "fst mc = Running" "\<not> emergency (motors (snd mc))"
    by (cases "fst mc"; simp)+
  with ok show ?thesis by (simp add: ramp_pass_Running drive_ok_ramp_body)
qed

lemma drive_ok_step:
  "drive_ok (fst mc) (motors (snd mc)) \<Longrightarrow>
   drive_ok (fst (step ev mc)) (motors (snd (step ev mc)))"
  by (cases ev)
     (simp_all add: drive_ok_handle_command drive_ok_callbacks drive_ok_ramp_pass
        drive_ok_update_odometry drive_ok_ticks)

lemma drive_ok_run:
  "drive_ok (fst mc) (motors (snd mc)) \<Longrightarrow>
   drive_ok (fst (run evs mc)) (motors (snd (run evs mc)))"
  by (induction evs arbitrary: mc) (simp_all add: drive_ok_step)

lemma drive_ok_built: "drive_ok th (motors (build_robot t0))"
  by (simp add: build_robot_def drive_ok_init)

subsection \<open>The ramp thread of the robot as built\<close>

lemma build_machine_eq: "build_machine t0 = (Ended, build_robot t0)"
  by (simp add: build_machine_def motors_new_eq)

lemma as_built_eq: "as_built = (Ended, advancing)"
  by (simp add: as_built_def forward_then_ramp_def build_machine_eq run_ramp_idle advancing_def)

lemma cruising_eq:
  "cruising =
     (Running,
      advancing
        \<lparr>motors := (motors advancing)
           \<lparr>current_left := 60, current_right := 60,
            left := \<lparr>inverted = False, ch_speed = 60, duty = 60, in1 = True, in2 = False\<rparr>,
            right := \<lparr>inverted = True, ch_speed = 60, duty = 60, in1 = False, in2 = True\<rparr>\<rparr>\<rparr>)"
  by (simp add: cruising_def forward_then_ramp_def advancing_def [symmetric])
     (simp add: advancing_eq build_robot_def motors_init_def eval_nat_numeral ramp_pass_def
        ramp_loop_pass_def ramp_body_def ramp_next_def RAMP_STEP_def Let_def ch_set_speed_def
        set_duty_def set_direction_def)

text \<open>
  C5. The claim: a ramp tick snaps or moves one step toward the target, and current
  reaches target within the ceiling of gap / step ticks. The ramp thread of the robot as
  built never runs a tick: the constructor starts it before it assigns \<open>_emergency\<close>,
  the first pass reads the missing attribute and the thread ends. After \<open>forward\<close>
  the targets are 60 and the applied speeds stay 0, however many ramp periods go by.
  Had the thread survived the start, twelve passes would have brought both wheels to 60.
\<close>

theorem ramp_thread_ends_at_startup:
  "motors_new = (Ended, motors_init)
   \<and> build_machine 0 = (Ended, build_robot 0)
   \<and> as_built = (Ended, advancing)
   \<and> target_left (motors (snd as_built)) = 60
   \<and> target_right (motors (snd as_built)) = 60
   \<and> current_left (motors (snd as_built)) = 0
   \<and> current_right (motors (snd as_built)) = 0
   \<and> run (replicate n RampPass) as_built = as_built
   \<and> current_left (motors (snd cruising)) = 60
   \<and> current_right (motors (snd cruising)) = 60"
  by (simp add: motors_new_eq build_machine_eq as_built_eq cruising_eq run_ramp_idle)
     (simp add: advancing_eq motors_init_def)


section \<open>Soft stops and full latches\<close>

lemma ramp_next_to_zero: "\<bar>ramp_next c 0\<bar> = max 0 (\<bar>c\<bar> - RAMP_STEP)"
  by (auto simp add: ramp_next_def RAMP_STEP_def)

lemma watchdog_fired:
  "\<not> estop_active (safety s) \<Longrightarrow> WATCHDOG_TIMEOUT_S < now - last_command_t (safety s) \<Longrightarrow>
   watchdog_check now s
     = s\<lparr>motors := stop (motors s),
         nav := (if nav_linked (safety s) then (nav s)\<lparr>state := IDLE\<rparr> else nav s),
         leds := set_state ''warning'' (leds s)\<rparr>"
  by (simp add: watchdog_check_def Let_def)

text \<open>
  C7. In every run of the machine, whichever way the start of the ramp thread went: a
  watchdog check with the safety latch not set and more than 15 s since the last
  heartbeat calls \<open>stop()\<close>, which leaves both targets at zero and does not touch the
  applied speeds; sets RobotState to IDLE when the navigation controller is linked and
  leaves it alone otherwise; and shows the warning pattern. A running ramp thread then
  takes the magnitude of each applied speed down by one step per pass, and after the
  ceiling of speed / step passes the applied speeds, the channel speeds and the duty
  cycles are zero (with the thread ended, or the motor latch set, they are zero
  already). The safety latch is still unset and the motor latch is as it was. The same
  robot moving forward and hit by a critical front obstacle ends latched, in
  EMERGENCY_STOP.
\<close>

theorem watchdog_soft_stop:
  assumes "mc = run evs (th0, build_robot t0)"
      and "\<not> estop_active (safety (snd mc))"
      and "WATCHDOG_TIMEOUT_S < now - last_command_t (safety (snd mc))"
      and "nat \<lceil>\<bar>current_left (motors (snd mc))\<bar> / RAMP_STEP\<rceil> \<le> n"
      and "nat \<lceil>\<bar>current_right (motors (snd mc))\<bar> / RAMP_STEP\<rceil> \<le> n"
      and "mc' = run (replicate n RampPass) (step (WatchdogCheck now) mc)"
  shows
  "snd (step (WatchdogCheck now) mc)
     = (snd mc)\<lparr>motors := stop (motors (snd mc)),
               nav := (if nav_linked (safety (snd mc)) then (nav (snd mc))\<lparr>state := IDLE\<rparr>
                       else nav (snd mc)),
               leds := set_state ''warning'' (leds (snd mc))\<rparr>
   \<and> target_left (motors (snd (step (WatchdogCheck now) mc))) = 0
   \<and> target_right (motors (snd (step (WatchdogCheck now) mc))) = 0
   \<and> current_left (motors (snd (step (WatchdogCheck now) mc))) = current_left (motors (snd mc))
   \<and> current_right (motors (snd (step (WatchdogCheck now) mc)))
     = current_right (motors (snd mc))
   \<and> (fst mc = Running \<and> \<not> emergency (motors (snd mc)) \<longrightarrow>
         \<bar>current_left (motors (snd (step RampPass (step (WatchdogCheck now) mc))))\<bar>
           = max 0 (\<bar>current_left (motors (snd mc))\<bar> - RAMP_STEP)
         \<and> \<bar>current_right (motors (snd (step RampPass (step (WatchdogCheck now) mc))))\<bar>
           = max 0 (\<bar>current_right (motors (snd mc))\<bar> - RAMP_STEP))
   \<and> current_left (motors (snd mc')) = 0
   \<and> current_right (motors (snd mc')) = 0
   \<and> ch_speed (left (motors (snd mc'))) = 0
   \<and> ch_speed (right (motors (snd mc'))) = 0
   \<and> duty (left (motors (snd mc'))) = 0
   \<and> duty (right (motors (snd mc'))) = 0
   \<and> \<not> estop_active (safety (snd mc'))
   \<and> emergency (motors (snd mc')) = emergency (motors (snd mc))
   \<and> state (nav (snd mc'))
     = (if nav_linked (safety (snd mc)) then IDLE else state (nav (snd mc)))
   \<and> (nav_linked (safety (snd mc)) \<and> state (nav (snd mc)) = MOVING_FORWARD \<longrightarrow>
         estop_active (safety (on_obstacle_critical ''front'' d (snd mc)))
         \<and> emergency (motors (on_obstacle_critical ''front'' d (snd mc)))
         \<and> state (nav (on_obstacle_critical ''front'' d (snd mc))) = EMERGENCY_STOP)"
proof -
  let ?s = "snd mc" and ?th = "fst mc"
  let ?w = "step (WatchdogCheck now) mc"
  have ok: "drive_ok ?th (motors ?s)"
    unfolding assms(1) by (rule drive_ok_run) (simp add: drive_ok_built)
  note w0 = watchdog_fired [OF assms(2,3)]
  have w: "snd ?w = ?s\<lparr>motors := stop (motors ?s),
               nav := (if nav_linked (safety ?s) then (nav ?s)\<lparr>state := IDLE\<rparr> else nav ?s),
               leds := set_state ''warning'' (leds ?s)\<rparr>"
    by (simp add: w0)
  have wth: "fst ?w = ?th" by simp
  have lat: "emergency (motors ?s) \<longrightarrow> target_left (motors ?s) = 0 \<and> target_right (motors ?s) = 0
               \<and> current_left (motors ?s) = 0 \<and> current_right (motors ?s) = 0"
    using ok by (simp add: drive_ok_def)
  have wm: "target_left (motors (snd ?w)) = 0 \<and> target_right (motors (snd ?w)) = 0
            \<and> current_left (motors (snd ?w)) = current_left (motors ?s)
            \<and> current_right (motors (snd ?w)) = current_right (motors ?s)
            \<and> emergency (motors (snd ?w)) = emergency (motors ?s)"
    using lat by (simp add: w0 stop_def set_targets_def SPEED_MAX_PERCENT_def)
  have one: "fst mc = Running \<and> \<not> emergency (motors ?s) \<longrightarrow>
         \<bar>current_left (motors (snd (step RampPass ?w)))\<bar>
           = max 0 (\<bar>current_left (motors ?s)\<bar> - RAMP_STEP)
         \<and> \<bar>current_right (motors (snd (step RampPass ?w)))\<bar>
           = max 0 (\<bar>current_right (motors ?s)\<bar> - RAMP_STEP)"
    using wm wth by (simp add: ramp_pass_Running ramp_body_fields ramp_next_to_zero)
  have ok': "drive_ok (fst mc') (motors (snd mc'))"
    unfolding assms(6) by (intro drive_ok_run drive_ok_step ok)
  have rest: "fst mc' = ?th \<and> safety (snd mc') = safety (snd ?w) \<and> nav (snd mc') = nav (snd ?w)
              \<and> emergency (motors (snd mc')) = emergency (motors (snd ?w))"
    unfolding assms(6) using run_ramp_rest [of n ?w] wth by simp
  have zero: "current_left (motors (snd mc')) = 0 \<and> current_right (motors (snd mc')) = 0"
  proof (cases "?th = Ended \<or> emergency (motors ?s)")
    case True
    then have "current_left (motors ?s) = 0 \<and> current_right (motors ?s) = 0"
      using ok by (auto simp add: drive_ok_def)
    moreover from True have "mc' = ?w"
      unfolding assms(6) using wm wth by (intro run_ramp_idle) auto
    ultimately show ?thesis using wm by simp
  next
    case False
    then have r: "fst ?w = Running" "\<not> emergency (motors (snd ?w))"
      using wm wth by (cases ?th; simp)+
    have cl: "((\<lambda>x. ramp_next x 0) ^^ n) (current_left (motors ?s)) = 0"
      using assms(4) by (intro ramp_next_converges) (simp add: RAMP_STEP_def)
    have cr: "((\<lambda>x. ramp_next x 0) ^^ n) (current_right (motors ?s)) = 0"
      using assms(5) by (intro ramp_next_converges) (simp add: RAMP_STEP_def)
    from run_ramp_Running [OF r, of n] wm cl cr show ?thesis
      unfolding assms(6) by simp
  qed
  have chan: "ch_speed (left (motors (snd mc'))) = 0 \<and> ch_speed (right (motors (snd mc'))) = 0
              \<and> duty (left (motors (snd mc'))) = 0 \<and> duty (right (motors (snd mc'))) = 0"
    using ok' zero by (simp add: drive_ok_def)
  have obs: "nav_linked (safety ?s) \<and> state (nav ?s) = MOVING_FORWARD \<longrightarrow>
         estop_active (safety (on_obstacle_critical ''front'' d ?s))
         \<and> emergency (motors (on_obstacle_critical ''front'' d ?s))
         \<and> state (nav (on_obstacle_critical ''front'' d ?s)) = EMERGENCY_STOP"
    using assms(2)
    by (simp add: on_obstacle_critical_def trigger_effect emergency_stop_def)
  have fin: "\<not> estop_active (safety (snd mc'))
     \<and> emergency (motors (snd mc')) = emergency (motors ?s)
     \<and> state (nav (snd mc')) = (if nav_linked (safety ?s) then IDLE else state (nav ?s))"
    using rest wm assms(2) by (simp add: w0)
  from w wm one zero chan fin obs show ?thesis by blast
qed

theorem watchdog_soft_stop_witness:
  "cruising = run forward_then_ramp (Running, build_robot 0)
   \<and> current_left (motors (snd cruising)) = 60
   \<and> current_right (motors (snd cruising)) = 60
   \<and> duty (left (motors (snd cruising))) = 60
   \<and> \<not> estop_active (safety (snd cruising))
   \<and> WATCHDOG_TIMEOUT_S < 16 - last_command_t (safety (snd cruising))
   \<and> nat \<lceil>\<bar>current_left (motors (snd cruising))\<bar> / RAMP_STEP\<rceil> \<le> 12
   \<and> nat \<lceil>\<bar>current_right (motors (snd cruising))\<bar> / RAMP_STEP\<rceil> \<le> 12
   \<and> \<bar>current_left (motors (snd (step RampPass (step (WatchdogCheck 16) cruising))))\<bar> = 55
   \<and> current_left (motors (snd (run (replicate 12 RampPass)
        (step (WatchdogCheck 16) cruising)))) = 0
   \<and> duty (left (motors (snd (run (replicate 12 RampPass)
        (step (WatchdogCheck 16) cruising))))) = 0
   \<and> \<not> estop_active (safety (snd (run (replicate 12 RampPass)
        (step (WatchdogCheck 16) cruising))))
   \<and> \<not> emergency (motors (snd (run (replicate 12 RampPass)
        (step (WatchdogCheck 16) cruising))))
   \<and> state (nav (snd (run (replicate 12 RampPass) (step (WatchdogCheck 16) cruising)))) = IDLE"
proof -
  have v: "fst cruising = Running
           \<and> current_left (motors (snd cruising)) = 60
           \<and> current_right (motors (snd cruising)) = 60
           \<and> duty (left (motors (snd cruising))) = 60
           \<and> \<not> emergency (motors (snd cruising))
           \<and> nav_linked (safety (snd cruising))"
    by (simp add: cruising_eq advancing_eq build_robot_def motors_init_def)
  have h2: "\<not> estop_active (safety (snd cruising))"
    by (simp add: cruising_eq advancing_eq build_robot_def)
  have h3: "WATCHDOG_TIMEOUT_S < 16 - last_command_t (safety (snd cruising))"
    by (simp add: cruising_eq advancing_eq build_robot_def WATCHDOG_TIMEOUT_S_def)
  have h4: "nat \<lceil>\<bar>current_left (motors (snd cruising))\<bar> / RAMP_STEP\<rceil> \<le> 12"
    using v by (simp add: RAMP_STEP_def ceiling_le_iff)
  have h5: "nat \<lceil>\<bar>current_right (motors (snd cruising))\<bar> / RAMP_STEP\<rceil> \<le> 12"
    using v by (simp add: RAMP_STEP_def ceiling_le_iff)
  note t = watchdog_soft_stop [OF cruising_def [unfolded atomize_eq] h2 h3 h4 h5 refl, of 10]
  from t [THEN conjunct2] v h2 h3 h4 h5 show ?thesis
    by (simp add: cruising_def [symmetric] RAMP_STEP_def)
qed


text \<open>
  C8. The claim: at or beyond the 200 m limit the track-limit check triggers the full
  emergency latch. It does not on a robot whose safety latch is stale: after an
  emergency, the \<open>estop_release\<close> command and \<open>forward\<close>, the robot moves with the
  safety manager's latch still set, and at 200 m \<open>trigger_emergency\<close> returns at
  once. The check then does what it does at 199 m: \<open>stop()\<close> and the orange flash,
  motors not latched, RobotState still MOVING_FORWARD. On a robot without the stale
  latch, 199 m gives the soft stop and the warning only, and 200 m the full latch.
\<close>

theorem check_fosse_limits_stale_latch:
  "estop_active (safety moving_again)
   \<and> state (nav moving_again) = MOVING_FORWARD
   \<and> \<not> emergency (motors moving_again)
   \<and> target_left (motors moving_again) = 60
   \<and> \<not> emergency (motors (check_fosse_limits 200 moving_again))
   \<and> state (nav (check_fosse_limits 200 moving_again)) = MOVING_FORWARD
   \<and> current_state (leds (check_fosse_limits 200 moving_again)) = ''moving''
   \<and> target_left (motors (check_fosse_limits 200 moving_again)) = 0
   \<and> check_fosse_limits 200 moving_again = check_fosse_limits 199 moving_again
   \<and> \<not> estop_active (safety (check_fosse_limits 199 advancing))
   \<and> \<not> emergency (motors (check_fosse_limits 199 advancing))
   \<and> target_left (motors (check_fosse_limits 199 advancing)) = 0
   \<and> flashes (leds (check_fosse_limits 199 advancing)) = [(''orange'', 5)]
   \<and> state (nav (check_fosse_limits 199 advancing)) = MOVING_FORWARD
   \<and> estop_active (safety (check_fosse_limits 200 advancing))
   \<and> emergency (motors (check_fosse_limits 200 advancing))
   \<and> current_state (leds (check_fosse_limits 200 advancing)) = ''emergency''
   \<and> state (nav (check_fosse_limits 200 advancing)) = EMERGENCY_STOP"
  by (simp add: moving_again_eq advancing_eq)
     (simp add: safety_defs led_defs motor_defs Let_def)

section \<open>Odometry in binary64 arithmetic\<close>

text \<open>The exponent that \<open>rnd\<close> uses is the binary exponent.\<close>

lemma expo_bounds: "x \<noteq> 0 \<Longrightarrow> 2 powi expo x \<le> \<bar>x\<bar> \<and> \<bar>x\<bar> < 2 powi (expo x + 1)"
proof (cases "1 \<le> \<bar>x\<bar>")
  case True
  define n where "n = \<lfloor>\<bar>x\<bar>\<rfloor>"
  have n: "0 < n" using True by (simp add: n_def)
  have e: "expo x = bitlen n - 1" using True by (simp add: expo_def n_def)
  have b1: "1 \<le> bitlen n" using n by (simp add: bitlen_alt_def)
  from bitlen_bounds [OF n] have lo: "2 ^ nat (bitlen n - 1) \<le> n" and hi: "n < 2 ^ nat (bitlen n)"
    by simp_all
  have "(2::real) powi expo x = 2 ^ nat (bitlen n - 1)"
    using b1 by (simp add: e power_int_def)
  also have "\<dots> \<le> of_int n" using lo by (metis of_int_le_iff of_int_numeral of_int_power)
  also have "\<dots> \<le> \<bar>x\<bar>" by (simp add: n_def)
  finally have A: "2 powi expo x \<le> \<bar>x\<bar>" .
  have "n + 1 \<le> 2 ^ nat (bitlen n)" using hi by simp
  then have "real_of_int (n + 1) \<le> 2 ^ nat (bitlen n)"
    by (metis of_int_le_iff of_int_numeral of_int_power)
  moreover have "\<bar>x\<bar> < real_of_int (n + 1)" unfolding n_def by linarith
  moreover have "(2::real) powi (expo x + 1) = 2 ^ nat (bitlen n)"
    using b1 by (simp add: e power_int_def)
  ultimately have B: "\<bar>x\<bar> < 2 powi (expo x + 1)" by simp
  from A B show ?thesis by simp
next
  case False
  assume x0: "x \<noteq> 0"
  define z where "z = 1 / \<bar>x\<bar>"
  define c where "c = \<lceil>z\<rceil>"
  define k where "k = bitlen (c - 1)"
  have z1: "1 < z" using False x0 by (simp add: z_def)
  have c2: "2 \<le> c" using z1 unfolding c_def by linarith
  then have c1: "0 < c - 1" by simp
  have e: "expo x = - k" using False by (simp add: expo_def k_def c_def z_def)
  have k1: "1 \<le> k" using c1 by (simp add: k_def bitlen_alt_def)
  from bitlen_bounds [OF c1] have lo: "2 ^ nat (k - 1) \<le> c - 1" and hi: "c - 1 < 2 ^ nat k"
    by (simp_all add: k_def)
  have xz: "\<bar>x\<bar> = 1 / z" using x0 by (simp add: z_def)
  have "c \<le> 2 ^ nat k" using hi by simp
  then have "real_of_int c \<le> 2 ^ nat k" by (metis of_int_le_iff of_int_numeral of_int_power)
  moreover have "z \<le> real_of_int c" by (simp add: c_def)
  ultimately have zle: "z \<le> 2 ^ nat k" by linarith
  have "real_of_int (c - 1) < z" unfolding c_def by linarith
  moreover have "(2::real) ^ nat (k - 1) \<le> real_of_int (c - 1)"
    using lo by (metis of_int_le_iff of_int_numeral of_int_power)
  ultimately have zgt: "2 ^ nat (k - 1) < z" by linarith
  have p1: "(2::real) powi expo x = 1 / 2 ^ nat k"
    using k1 by (simp add: e power_int_def field_simps)
  have p2: "(2::real) powi (expo x + 1) = 1 / 2 ^ nat (k - 1)"
    using k1 by (cases "k = 1") (simp_all add: e power_int_def field_simps nat_diff_distrib)
  have A: "2 powi expo x \<le> \<bar>x\<bar>"
    unfolding p1 xz using zle z1 by (simp add: frac_le)
  have B: "\<bar>x\<bar> < 2 powi (expo x + 1)"
    unfolding p2 xz using zgt z1 by (simp add: frac_less2)
  from A B show ?thesis by simp
qed

text \<open>
  \<open>rnd x\<close> is an integer multiple of \<open>2^(expo x - 52)\<close>, the unit in the last place
  of \<open>x\<close>, and lies within half that unit of \<open>x\<close>.
\<close>

lemma round_even_error: "\<bar>of_int (round_even y) - y\<bar> \<le> 1 / 2"
proof -
  have "of_int \<lfloor>y\<rfloor> \<le> y" "y < of_int \<lfloor>y\<rfloor> + 1" by linarith+
  then show ?thesis
    by (auto simp add: round_even_def Let_def)
qed

lemma rnd_error: "x \<noteq> 0 \<Longrightarrow> \<bar>rnd x - x\<bar> \<le> 2 powi (expo x - 53)"
proof -
  assume x: "x \<noteq> 0"
  define p :: real where "p = 2 powi (expo x - 52)"
  have p: "0 < p" by (simp add: p_def)
  have q: "(2::real) powi (52 - expo x) = 1 / p"
    by (simp add: p_def power_int_diff)
  have h: "(2::real) powi (expo x - 53) = p / 2"
    by (simp add: p_def power_int_diff)
  have "rnd x - x = (of_int (round_even (x / p)) - x / p) * p"
    using x p by (simp add: rnd_def q p_def [symmetric] field_simps)
  then have "\<bar>rnd x - x\<bar> = \<bar>of_int (round_even (x / p)) - x / p\<bar> * p"
    using p by (simp add: abs_mult)
  also have "\<dots> \<le> (1 / 2) * p"
    using p round_even_error [of "x / p"] by (intro mult_right_mono) simp_all
  finally show ?thesis by (simp add: h)
qed

text \<open>The operations of the two updates, each rounded.\<close>

lemma odo_step_01: "fdiv 120 1000 = 1080863910568919 / 9007199254740992"
  by code_simp

lemma odo_step_02: "fmul math_pi (1080863910568919 / 9007199254740992) = 3395634120973651 / 9007199254740992"
  by code_simp

lemma odo_step_03: "fdiv 9 360 = 3602879701896397 / 144115188075855872"
  by code_simp

lemma odo_step_04: "fmul (3602879701896397 / 144115188075855872) (3395634120973651 / 9007199254740992) = 2716507296778921 / 288230376151711744"
  by code_simp

lemma odo_step_05: "fdiv 10 360 = 2001599834386887 / 72057594037927936"
  by code_simp

lemma odo_step_06: "fmul (2001599834386887 / 72057594037927936) (3395634120973651 / 9007199254740992) = 6036682881730935 / 576460752303423488"
  by code_simp

lemma odo_step_07: "fadd (2716507296778921 / 288230376151711744) (6036682881730935 / 576460752303423488) = 1433712184411097 / 72057594037927936"
  by code_simp

lemma odo_step_08: "fdiv (1433712184411097 / 72057594037927936) 2 = 1433712184411097 / 144115188075855872"
  by code_simp

lemma odo_step_09: "fsub (6036682881730935 / 576460752303423488) (2716507296778921 / 288230376151711744) = 603668288173093 / 576460752303423488"
  by code_simp

lemma odo_step_10: "fdiv 450 1000 = 8106479329266893 / 18014398509481984"
  by code_simp

lemma odo_step_11: "fdiv (603668288173093 / 576460752303423488) (8106479329266893 / 18014398509481984) = 2682970169658191 / 1152921504606846976"
  by code_simp

lemma odo_step_12: "fdiv 180 math_pi = 1007958012753983 / 17592186044416"
  by code_simp

lemma odo_step_13: "fmul (2682970169658191 / 1152921504606846976) (1007958012753983 / 17592186044416) = 1200959900632131 / 9007199254740992"
  by code_simp

lemma odo_step_14: "fadd 0 (1200959900632131 / 9007199254740992) = 1200959900632131 / 9007199254740992"
  by code_simp

lemma odo_step_15: "float_rem (1200959900632131 / 9007199254740992) 360 = 1200959900632131 / 9007199254740992"
  by code_simp

lemma odo_step_16: "fadd 0 (1433712184411097 / 144115188075855872) = 1433712184411097 / 144115188075855872"
  by code_simp

lemma odo_step_17: "fdiv 1 360 = 6405119470038039 / 2305843009213693952"
  by code_simp

lemma odo_step_18: "fmul (6405119470038039 / 2305843009213693952) (3395634120973651 / 9007199254740992) = 1207336576346187 / 1152921504606846976"
  by code_simp

lemma odo_step_19: "fdiv 0 360 = 0"
  by code_simp

lemma odo_step_20: "fmul 0 (3395634120973651 / 9007199254740992) = 0"
  by code_simp

lemma odo_step_21: "fadd (1207336576346187 / 1152921504606846976) 0 = 1207336576346187 / 1152921504606846976"
  by code_simp

lemma odo_step_22: "fdiv (1207336576346187 / 1152921504606846976) 2 = 1207336576346187 / 2305843009213693952"
  by code_simp

lemma odo_step_23: "fsub 0 (1207336576346187 / 1152921504606846976) = - (1207336576346187 / 1152921504606846976)"
  by code_simp

lemma odo_step_24: "fdiv (- (1207336576346187 / 1152921504606846976)) (8106479329266893 / 18014398509481984) = - (5365940339316387 / 2305843009213693952)"
  by code_simp

lemma odo_step_25: "fmul (- (5365940339316387 / 2305843009213693952)) (1007958012753983 / 17592186044416) = - (4803839602528529 / 36028797018963968)"
  by code_simp

lemma odo_step_26: "fadd (1200959900632131 / 9007199254740992) (- (4803839602528529 / 36028797018963968)) = - (5 / 36028797018963968)"
  by code_simp

lemma odo_step_27: "float_rem (- (5 / 36028797018963968)) 360 = 360"
  by code_simp

lemma odo_step_28: "fadd (1433712184411097 / 144115188075855872) (1207336576346187 / 2305843009213693952) = 6036682881730935 / 576460752303423488"
  by code_simp

lemmas odo_steps = odo_step_01 odo_step_02 odo_step_03 odo_step_04 odo_step_05 odo_step_06 odo_step_07 odo_step_08 odo_step_09 odo_step_10 odo_step_11 odo_step_12 odo_step_13 odo_step_14 odo_step_15 odo_step_16 odo_step_17 odo_step_18 odo_step_19 odo_step_20 odo_step_21 odo_step_22 odo_step_23 odo_step_24 odo_step_25 odo_step_26 odo_step_27 odo_step_28

lemma odo_start:
  "(tick_left ^^ 9) ((tick_right ^^ 10) motors_init)
     = motors_init\<lparr>ticks_left := 9, ticks_right := 10\<rparr>"
  by (simp add: eval_nat_numeral tick_left_def tick_right_def motors_init_def)

lemma odo_a_eq:
  "odo_a = motors_init\<lparr>dist_m := 1433712184411097 / 144115188075855872,
                        heading := 1200959900632131 / 9007199254740992\<rparr>"
  by (simp add: odo_a_def odo_start)
     (simp add: update_odometry_def Let_def degrees_def ENCODER_TICKS_PER_REV_def
        WHEEL_DIAMETER_MM_def WHEEL_BASE_MM_def odo_steps motors_init_def)

lemma odo_b_eq:
  "odo_b = motors_init\<lparr>dist_m := 6036682881730935 / 576460752303423488,
                        heading := 360\<rparr>"
  by (simp add: odo_b_def odo_a_eq)
     (simp add: tick_left_def update_odometry_def Let_def degrees_def
        ENCODER_TICKS_PER_REV_def WHEEL_DIAMETER_MM_def WHEEL_BASE_MM_def odo_steps
        motors_init_def)

text \<open>
  C9. The claim: after \<open>update_odometry\<close> the heading is in [0, 360). Nine pulses of
  the left encoder and ten of the right, then an update, leave the heading at
  0.1333333333333332 degrees; one more pulse of the left encoder and an update bring
  the sum of heading and delta to -5 * 2^-55, whose remainder modulo 360 is itself, and
  adding 360 to it rounds to 360: the heading is exactly 360. The tick counters are zero
  and the distance has not decreased.
\<close>

theorem update_odometry_heading_360:
  "ticks_left (tick_left odo_a) = 1
   \<and> ticks_right (tick_left odo_a) = 0
   \<and> heading odo_a = 1200959900632131 / 9007199254740992
   \<and> 0 \<le> heading odo_a \<and> heading odo_a < 360
   \<and> fadd (heading odo_a) (- (4803839602528529 / 36028797018963968))
     = - (5 / 36028797018963968)
   \<and> heading odo_b = 360
   \<and> \<not> heading odo_b < 360
   \<and> ticks_left odo_b = 0
   \<and> ticks_right odo_b = 0
   \<and> dist_m odo_a \<le> dist_m odo_b"
  by (simp add: odo_a_eq odo_b_eq odo_steps) (simp add: tick_left_def motors_init_def)

end
